theory Spec2Isabelle
  imports Complex_Main
begin

section \<open>Python strings\<close>

text \<open>
  Strings are lists of characters, a character being a code point below 256 (Latin-1).
  On these \<open>str.lower\<close> changes the letters \<open>A\<close> to \<open>Z\<close> (65 to 90) and the accented
  capitals 192 to 214 and 216 to 222, each to the code point 32 further on; 215, the
  multiplication sign, is no letter.
\<close>

definition is_upper :: "char \<Rightarrow> bool" where
  "is_upper c \<longleftrightarrow>
     (65 \<le> (of_char c :: nat) \<and> (of_char c :: nat) \<le> 90) \<or>
     (192 \<le> (of_char c :: nat) \<and> (of_char c :: nat) \<le> 214) \<or>
     (216 \<le> (of_char c :: nat) \<and> (of_char c :: nat) \<le> 222)"

text \<open>The lower-case letters below 256, as \<open>str.islower\<close> has them.\<close>

definition is_lower :: "char \<Rightarrow> bool" where
  "is_lower c \<longleftrightarrow>
     (97 \<le> (of_char c :: nat) \<and> (of_char c :: nat) \<le> 122) \<or>
     (of_char c :: nat) = 170 \<or> (of_char c :: nat) = 181 \<or> (of_char c :: nat) = 186 \<or>
     (223 \<le> (of_char c :: nat) \<and> (of_char c :: nat) \<le> 246) \<or>
     (248 \<le> (of_char c :: nat) \<and> (of_char c :: nat) \<le> 255)"

text \<open>
  The lower-case letter of an upper-case one is 32 further on: the upper-case codes have
  bit 5 clear, and setting it adds 32.
\<close>

definition lower_char :: "char \<Rightarrow> char" where
  "lower_char c =
     (if is_upper c then
        (case c of Char b0 b1 b2 b3 b4 b5 b6 b7 \<Rightarrow> Char b0 b1 b2 b3 b4 True b6 b7)
      else c)"

text \<open>\<^verbatim>\<open>s.lower()\<close>\<close>

definition lower :: "string \<Rightarrow> string" where
  "lower s = map lower_char s"

text \<open>\<^verbatim>\<open>s.replace("_", " ")\<close>\<close>

definition replace_underscore :: "string \<Rightarrow> string" where
  "replace_underscore s = map (\<lambda>c. if c = CHR ''_'' then CHR '' '' else c) s"

text \<open>
  \<^verbatim>\<open>s.split(sep)\<close> for a one-character separator: the pieces between the separators,
  empty pieces kept, so the result is never the empty list.
\<close>

fun split :: "char \<Rightarrow> string \<Rightarrow> string list" where
  "split sep [] = [[]]"
| "split sep (c # cs) =
     (if c = sep then [] # split sep cs
      else (case split sep cs of
              [] \<Rightarrow> [[c]]
            | w # ws \<Rightarrow> (c # w) # ws))"

text \<open>\<^verbatim>\<open>sep.join(xs)\<close>\<close>

fun join :: "string \<Rightarrow> string list \<Rightarrow> string" where
  "join sep [] = []"
| "join sep [x] = x"
| "join sep (x # y # ys) = x @ sep @ join sep (y # ys)"

text \<open>
  \<^verbatim>\<open>s.strip()\<close>: leading and trailing whitespace removed. Below 256 the whitespace of
  \<open>str\<close> is 9 to 13, 28 to 32, 133 (next line) and 160 (no-break space).
\<close>

definition is_space :: "char \<Rightarrow> bool" where
  "is_space c \<longleftrightarrow>
     (9 \<le> (of_char c :: nat) \<and> (of_char c :: nat) \<le> 13) \<or>
     (28 \<le> (of_char c :: nat) \<and> (of_char c :: nat) \<le> 32) \<or>
     (of_char c :: nat) = 133 \<or> (of_char c :: nat) = 160"

definition strip :: "string \<Rightarrow> string" where
  "strip s = rev (dropWhile is_space (rev (dropWhile is_space s)))"

text \<open>
  \<^verbatim>\<open>re.sub(r"([a-z])([A-Z])", r"\g<1> \g<2>", s)\<close>: a space goes between a character in
  \<open>a\<close> to \<open>z\<close> and a character in \<open>A\<close> to \<open>Z\<close> right after it; the two classes hold
  these 26 letters each and no accented one. The scan resumes behind the second
  character of a match; that character cannot open a match itself, so resuming at it
  finds the same matches.
\<close>

definition in_a_z :: "char \<Rightarrow> bool" where
  "in_a_z c \<longleftrightarrow> 97 \<le> (of_char c :: nat) \<and> (of_char c :: nat) \<le> 122"

definition in_A_Z :: "char \<Rightarrow> bool" where
  "in_A_Z c \<longleftrightarrow> 65 \<le> (of_char c :: nat) \<and> (of_char c :: nat) \<le> 90"

fun re_sub_case :: "string \<Rightarrow> string" where
  "re_sub_case (a # b # cs) =
     (if in_a_z a \<and> in_A_Z b then a # CHR '' '' # re_sub_case (b # cs)
      else a # re_sub_case (b # cs))"
| "re_sub_case cs = cs"

text \<open>\<^verbatim>\<open>s.replace("AM", "A.M.")\<close>\<close>

fun replace_AM :: "string \<Rightarrow> string" where
  "replace_AM (a # b # cs) =
     (if a = CHR ''A'' \<and> b = CHR ''M'' then ''A.M.'' @ replace_AM cs
      else a # replace_AM (b # cs))"
| "replace_AM cs = cs"

section \<open>Values, errors, effects\<close>

text \<open>A Python value held in a dictionary: a string, \<open>None\<close>, or a number.\<close>

datatype pyval = PyStr string | PyNone | PyInt int

text \<open>The exceptions the modelled code can raise.\<close>

datatype error = UnknownTimeZoneError | AttributeError | KeyError

text \<open>A \<open>pytz\<close> timezone object, named by its zone.\<close>

datatype tzinfo = TZ string

text \<open>An aware datetime: an instant and the zone it is shown in.\<close>

type_synonym datetime = "nat \<times> tzinfo"

text \<open>The calls the skill makes on its collaborators, in the order made.\<close>

datatype event =
    AskYesNo string string
  | SpeakDialog string string "string option"
  | MouthDisplay string real bool
  | MouthReset
  | RemoveActive
  | DeactivateMouthEvents
  | ActivateMouthEvents
  | GuiClear
  | GuiShowPage string
  | Sleep nat
  | WaitWhileSpeaking

text \<open>
  What the skill reads from outside itself. A lookup that raises is \<open>None\<close>.
  \<^item> \<open>astral\<close>: \<^verbatim>\<open>self.astral[locale].timezone\<close>;
  \<^item> \<open>pytz_timezone\<close>: \<^verbatim>\<open>pytz.timezone(name)\<close>;
  \<^item> \<open>all_timezones\<close>: \<^verbatim>\<open>pytz.all_timezones\<close>, in its order;
  \<^item> \<open>timezone_value\<close>: \<^verbatim>\<open>self.translate_namedvalues("timezone.value")\<close>, keys in
    iteration order;
  \<^item> \<open>fuzzy_match\<close>: the similarity of \<open>lingua_franca\<close>, an exact number here;
  \<^item> \<open>ask_yesno\<close>: the answer to \<^verbatim>\<open>did.you.mean.timezone\<close> for a zone name;
  \<^item> \<open>get_active\<close>: \<^verbatim>\<open>self.enclosure.display_manager.get_active()\<close>;
  \<^item> \<open>active_alarms\<close>: the reply to \<^verbatim>\<open>private.mycroftai.has_alarm\<close>, \<open>None\<close> when there
    is none.
\<close>

record env =
  astral :: "string \<Rightarrow> string option"
  pytz_timezone :: "string \<Rightarrow> tzinfo option"
  all_timezones :: "string list"
  timezone_value :: "(string \<times> pyval) list"
  fuzzy_match :: "string \<Rightarrow> string \<Rightarrow> real"
  ask_yesno :: "string \<Rightarrow> string option"
  location_timezone :: string
  now_utc :: datetime
  nice_time :: "datetime \<Rightarrow> bool \<Rightarrow> bool \<Rightarrow> bool \<Rightarrow> string"
  strftime :: "datetime \<Rightarrow> string \<Rightarrow> string"
  time_format :: "string option"
  date_format :: "string option"
  platform :: "string option"
  get_active :: string
  active_alarms :: "int option"
  extract_location :: "string \<Rightarrow> string option"

text \<open>A computation that calls collaborators and may raise: the calls, then the outcome.\<close>

type_synonym 'a traced = "event list \<times> (error + 'a)"

section \<open>Location resolution\<close>

text \<open>\<^verbatim>\<open>pytz.timezone(name)\<close> outside a \<^verbatim>\<open>try\<close>: the exception propagates.\<close>

definition timezone_or_raise :: "env \<Rightarrow> string \<Rightarrow> error + tzinfo option" where
  "timezone_or_raise e name =
     (case pytz_timezone e name of
        None \<Rightarrow> Inl UnknownTimeZoneError
      | Some tz \<Rightarrow> Inr (Some tz))"

text \<open>
  The loop over the keys of the lookup table (lines 100 to 104). \<open>None\<close>: no key matched.
  The value of a matching key is stripped, which raises on a value that is not a string.
\<close>

fun alias_scan :: "env \<Rightarrow> string \<Rightarrow> string list \<Rightarrow> (error + tzinfo option) option" where
  "alias_scan e locale [] = None"
| "alias_scan e locale (timezone # rest) =
     (if lower locale = lower timezone then
        Some (case map_of (timezone_value e) timezone of
                None \<Rightarrow> Inl KeyError
              | Some (PyStr v) \<Rightarrow> timezone_or_raise e (strip v)
              | Some _ \<Rightarrow> Inl AttributeError)
      else alias_scan e locale rest)"

text \<open>
  The score of one catalogue name (lines 116 to 123). \<open>split\<close> never returns the empty
  list, so one of the two branches is always taken; the last alternative is not reached.
\<close>

definition zone_score :: "env \<Rightarrow> string \<Rightarrow> string \<Rightarrow> real" where
  "zone_score e target name =
     (let normalized = split CHR ''/'' (replace_underscore (lower name));
          n = length normalized
      in if n = 1 then fuzzy_match e (normalized ! 0) target
         else if n \<ge> 2 then
           (let pct = fuzzy_match e (normalized ! 1) target;
                pct2 = fuzzy_match e (normalized ! (n - 2) @ '' '' @ normalized ! (n - 1)) target;
                pct3 = fuzzy_match e (normalized ! (n - 1) @ '' '' @ normalized ! (n - 2)) target
            in max pct (max pct2 pct3))
         else 0)"

text \<open>The scan for the best candidate (lines 114 to 125).\<close>

fun best_scan :: "env \<Rightarrow> string \<Rightarrow> (real \<times> string) option \<Rightarrow> string list \<Rightarrow> (real \<times> string) option" where
  "best_scan e target best [] = best"
| "best_scan e target best (name # names) =
     (let pct = zone_score e target name
      in best_scan e target
           (case best of
              None \<Rightarrow> Some (pct, name)
            | Some (b, bname) \<Rightarrow> if pct \<ge> b then Some (pct, name) else Some (b, bname))
           names)"

text \<open>The speakable version of a zone name (lines 131 to 135).\<close>

definition speakable :: "string \<Rightarrow> string" where
  "speakable name = join '' '' (rev (split CHR ''/'' (replace_underscore (re_sub_case name))))"

text \<open>
  The first \<^verbatim>\<open>try\<close> (lines 85 to 89): \<^verbatim>\<open>pytz.timezone(self.astral[locale].timezone)\<close>,
  with every exception swallowed.
\<close>

definition astral_timezone :: "env \<Rightarrow> string \<Rightarrow> tzinfo option" where
  "astral_timezone e locale =
     (case astral e locale of None \<Rightarrow> None | Some z \<Rightarrow> pytz_timezone e z)"

text \<open>\<^verbatim>\<open>TimeSkill.get_timezone\<close>\<close>

definition get_timezone :: "env \<Rightarrow> string \<Rightarrow> tzinfo option traced" where
  "get_timezone e locale =
     (case astral_timezone e locale of
        Some tz \<Rightarrow> ([], Inr (Some tz))
      | None \<Rightarrow>
     (case pytz_timezone e locale of
        Some tz \<Rightarrow> ([], Inr (Some tz))
      | None \<Rightarrow>
     (case alias_scan e locale (map fst (timezone_value e)) of
        Some r \<Rightarrow> ([], r)
      | None \<Rightarrow>
     (case best_scan e (lower locale) None (all_timezones e) of
        None \<Rightarrow> ([], Inr None)
      | Some (pct, name) \<Rightarrow>
          if pct > 0.8 then ([], timezone_or_raise e name)
          else if pct > 0.3 then
            (let say = speakable name
             in if ask_yesno e say = Some ''yes''
                then ([AskYesNo ''did.you.mean.timezone'' say], timezone_or_raise e name)
                else ([AskYesNo ''did.you.mean.timezone'' say], Inr None))
          else ([], Inr None)))))"

section \<open>The skill's state and its methods\<close>

text \<open>
  The fields of \<^verbatim>\<open>TimeSkill\<close> that the display code reads and writes, the
  \<^verbatim>\<open>show_time\<close> setting, the values held by \<^verbatim>\<open>self.gui\<close>, and the calls made on
  the collaborators so far.
\<close>

record skill =
  displayed_time :: "string option"
  display_tz :: "tzinfo option"
  answering_query :: bool
  show_time :: bool
  gui :: "string \<Rightarrow> pyval option"
  calls :: "event list"

text \<open>A method that changes the skill: its outcome and the skill afterwards.\<close>

type_synonym 'a action = "skill \<Rightarrow> (error + 'a) \<times> skill"

definition bind_traced :: "'a traced \<Rightarrow> ('a \<Rightarrow> 'b traced) \<Rightarrow> 'b traced" where
  "bind_traced m f =
     (case m of
        (evs, Inl err) \<Rightarrow> (evs, Inl err)
      | (evs, Inr x) \<Rightarrow> (case f x of (evs', r) \<Rightarrow> (evs @ evs', r)))"

definition bind_action :: "'a action \<Rightarrow> ('a \<Rightarrow> 'b action) \<Rightarrow> 'b action" where
  "bind_action m f = (\<lambda>s. case m s of (Inl err, s') \<Rightarrow> (Inl err, s') | (Inr x, s') \<Rightarrow> f x s')"

definition seq :: "unit action \<Rightarrow> 'b action \<Rightarrow> 'b action" where
  "seq m n = bind_action m (\<lambda>_. n)"

definition skip :: "unit action" where
  "skip = (\<lambda>s. (Inr (), s))"

definition call :: "event \<Rightarrow> unit action" where
  "call ev = (\<lambda>s. (Inr (), s\<lparr>calls := calls s @ [ev]\<rparr>))"

definition call_all :: "event list \<Rightarrow> unit action" where
  "call_all evs = (\<lambda>s. (Inr (), s\<lparr>calls := calls s @ evs\<rparr>))"

definition run_traced :: "(skill \<Rightarrow> 'a traced) \<Rightarrow> 'a action" where
  "run_traced f = (\<lambda>s. case f s of (evs, r) \<Rightarrow> (r, s\<lparr>calls := calls s @ evs\<rparr>))"

text \<open>\<^verbatim>\<open>self.gui[key] = value\<close> and \<^verbatim>\<open>self.gui.clear()\<close>\<close>

definition gui_set :: "string \<Rightarrow> pyval \<Rightarrow> unit action" where
  "gui_set key v = (\<lambda>s. (Inr (), s\<lparr>gui := (gui s)(key \<mapsto> v)\<rparr>))"

definition gui_clear :: "unit action" where
  "gui_clear = (\<lambda>s. (Inr (), s\<lparr>gui := (\<lambda>_. None), calls := calls s @ [GuiClear]\<rparr>))"

definition set_displayed_time :: "string option \<Rightarrow> unit action" where
  "set_displayed_time v = (\<lambda>s. (Inr (), s\<lparr>displayed_time := v\<rparr>))"

definition set_answering_query :: "bool \<Rightarrow> unit action" where
  "set_answering_query b = (\<lambda>s. (Inr (), s\<lparr>answering_query := b\<rparr>))"

text \<open>Truth of a string or \<open>None\<close> in a condition: a string that is not empty.\<close>

definition truthy :: "string option \<Rightarrow> bool" where
  "truthy v = (case v of None \<Rightarrow> False | Some x \<Rightarrow> x \<noteq> [])"

definition str_or_none :: "string option \<Rightarrow> pyval" where
  "str_or_none v = (case v of None \<Rightarrow> PyNone | Some x \<Rightarrow> PyStr x)"

text \<open>\<^verbatim>\<open>dt.astimezone(tz)\<close>: the same instant, shown in \<open>tz\<close>.\<close>

definition astimezone :: "datetime \<Rightarrow> tzinfo \<Rightarrow> datetime" where
  "astimezone dt tz = (fst dt, tz)"

text \<open>\<^verbatim>\<open>TimeSkill.use_24hour\<close>\<close>

definition use_24hour :: "env \<Rightarrow> bool" where
  "use_24hour e \<longleftrightarrow> time_format e = Some ''full''"

text \<open>\<^verbatim>\<open>TimeSkill.get_local_datetime\<close>\<close>

definition get_local_datetime :: "env \<Rightarrow> skill \<Rightarrow> string option \<Rightarrow> datetime option \<Rightarrow> datetime option traced" where
  "get_local_datetime e s location dtUTC =
     (let dt = (case dtUTC of None \<Rightarrow> now_utc e | Some d \<Rightarrow> d)
      in bind_traced
           (case display_tz s of
              Some tz \<Rightarrow> ([], Inr (Some tz))
            | None \<Rightarrow> get_timezone e (location_timezone e))
           (\<lambda>tz0. bind_traced
              (case location of
                 None \<Rightarrow> ([], Inr tz0)
               | Some l \<Rightarrow> if l \<noteq> [] then get_timezone e l else ([], Inr tz0))
              (\<lambda>tz. case tz of
                 None \<Rightarrow> ([SpeakDialog ''time.tz.not.found'' ''location'' location], Inr None)
               | Some z \<Rightarrow> ([], Inr (Some (astimezone dt z))))))"

text \<open>\<^verbatim>\<open>TimeSkill.get_display_date\<close>: \<^verbatim>\<open>day.strftime\<close> raises when \<open>day\<close> is \<open>None\<close>.\<close>

definition get_display_date :: "env \<Rightarrow> skill \<Rightarrow> datetime option \<Rightarrow> string option \<Rightarrow> string traced" where
  "get_display_date e s day location =
     bind_traced
       (case day of
          None \<Rightarrow> get_local_datetime e s location None
        | Some d \<Rightarrow> ([], Inr (Some d)))
       (\<lambda>day. case day of
          None \<Rightarrow> ([], Inl AttributeError)
        | Some d \<Rightarrow>
            if date_format e = Some ''MDY'' then ([], Inr (strftime e d ''%-m/%-d/%Y''))
            else ([], Inr (strftime e d ''%Y/%-d/%-m'')))"

text \<open>\<^verbatim>\<open>TimeSkill.get_display_current_time\<close>\<close>

definition get_display_current_time :: "env \<Rightarrow> skill \<Rightarrow> string option \<Rightarrow> datetime option \<Rightarrow> string option traced" where
  "get_display_current_time e s location dtUTC =
     bind_traced (get_local_datetime e s location dtUTC)
       (\<lambda>dt. case dt of
          None \<Rightarrow> ([], Inr None)
        | Some d \<Rightarrow> ([], Inr (Some (nice_time e d False (use_24hour e) False))))"

text \<open>\<^verbatim>\<open>TimeSkill.get_spoken_current_time\<close>\<close>

definition get_spoken_current_time :: "env \<Rightarrow> skill \<Rightarrow> string option \<Rightarrow> datetime option \<Rightarrow> bool \<Rightarrow> string option traced" where
  "get_spoken_current_time e s location dtUTC force_ampm =
     bind_traced (get_local_datetime e s location dtUTC)
       (\<lambda>dt. case dt of
          None \<Rightarrow> ([], Inr None)
        | Some d \<Rightarrow>
            (let say_am_pm = (truthy location \<or> force_ampm);
                 spoken = nice_time e d True (use_24hour e) say_am_pm
             in if say_am_pm then ([], Inr (Some (replace_AM spoken)))
                else ([], Inr (Some spoken))))"

text \<open>\<^verbatim>\<open>TimeSkill._is_alarm_set\<close>\<close>

definition is_alarm_set :: "env \<Rightarrow> bool" where
  "is_alarm_set e = (case active_alarms e of None \<Rightarrow> False | Some n \<Rightarrow> n > 0)"

text \<open>
  \<^verbatim>\<open>TimeSkill.display_mark1\<close>: the calls of \<^verbatim>\<open>mouth_display\<close>, each with its image
  code, its \<open>x\<close> and \<open>refresh\<close>.
\<close>

definition code_dict :: "char \<Rightarrow> string option" where
  "code_dict = map_of
     [(CHR '':'', ''CIICAA''),
      (CHR ''0'', ''EIMHEEMHAA''),
      (CHR ''1'', ''EIIEMHAEAA''),
      (CHR ''2'', ''EIEHEFMFAA''),
      (CHR ''3'', ''EIEFEFMHAA''),
      (CHR ''4'', ''EIMBABMHAA''),
      (CHR ''5'', ''EIMFEFEHAA''),
      (CHR ''6'', ''EIMHEFEHAA''),
      (CHR ''7'', ''EIEAEAMHAA''),
      (CHR ''8'', ''EIMHEFMHAA''),
      (CHR ''9'', ''EIMBEBMHAA'')]"

fun draw_chars :: "real \<Rightarrow> string \<Rightarrow> event list" where
  "draw_chars xoffset [] = []"
| "draw_chars xoffset (c # cs) =
     (case code_dict c of
        Some code \<Rightarrow>
          MouthDisplay code xoffset False
            # draw_chars (if c = CHR '':'' then xoffset + 2 else xoffset + 4) cs
      | None \<Rightarrow> draw_chars xoffset cs)"

definition display_mark1 :: "env \<Rightarrow> string \<Rightarrow> event list" where
  "display_mark1 e display_time =
     (if length display_time = 4 then
        [MouthDisplay ''JIAAAAAAAAAAAAAAAAAA'' 0 False,
         MouthDisplay ''JIAAAAAAAAAAAAAAAAAA'' 22 False]
      else
        [MouthDisplay ''HIAAAAAAAAAAAAAA'' 0 False,
         MouthDisplay ''HIAAAAAAAAAAAAAA'' 24 False])
     @ draw_chars ((32 - (4 * real (length display_time) - 2)) / 2) display_time
     @ (if is_alarm_set e then [MouthDisplay ''CIAACA'' 29 False]
        else [MouthDisplay ''CIAAAA'' 29 False])"

text \<open>\<^verbatim>\<open>TimeSkill.display_gui\<close>\<close>

definition display_gui :: "env \<Rightarrow> string \<Rightarrow> unit action" where
  "display_gui e display_time =
     seq gui_clear
    (seq (gui_set ''time_string'' (PyStr display_time))
    (seq (gui_set ''ampm_string'' (PyStr []))
    (bind_action (run_traced (\<lambda>s. get_display_date e s None None))
       (\<lambda>d. seq (gui_set ''date_string'' (PyStr d))
                 (call (GuiShowPage ''time.qml''))))))"

text \<open>\<^verbatim>\<open>TimeSkill.display\<close>\<close>

definition display :: "env \<Rightarrow> string option \<Rightarrow> unit action" where
  "display e display_time =
     (case display_time of
        None \<Rightarrow> skip
      | Some t \<Rightarrow>
          if t \<noteq> [] then
            seq (if platform e = Some ''mycroft_mark_1'' then call_all (display_mark1 e t) else skip)
                (display_gui e t)
          else skip)"

text \<open>\<^verbatim>\<open>TimeSkill._is_display_idle\<close>\<close>

definition is_display_idle :: "env \<Rightarrow> bool" where
  "is_display_idle e \<longleftrightarrow> get_active e = []"

text \<open>\<^verbatim>\<open>TimeSkill.update_display\<close>, the callback of the repeating event.\<close>

definition update_display :: "env \<Rightarrow> bool \<Rightarrow> unit action" where
  "update_display e force = (\<lambda>s.
     if answering_query s then (Inr (), s)
     else
      (bind_action (run_traced (\<lambda>s. get_display_current_time e s None None))
         (\<lambda>t. seq (gui_set ''time_string'' (str_or_none t))
      (bind_action (run_traced (\<lambda>s. get_display_date e s None None))
         (\<lambda>d. seq (gui_set ''date_string'' (PyStr d))
      (seq (gui_set ''ampm_string'' (PyStr []))
      (\<lambda>s.
        if show_time s then
          (if force \<or> is_display_idle e then
             bind_action (run_traced (\<lambda>s. get_display_current_time e s None None))
               (\<lambda>current_time s.
                  if displayed_time s \<noteq> current_time then
                    seq (set_displayed_time current_time)
                   (seq (display e current_time)
                        (call RemoveActive)) s
                  else (Inr (), s)) s
           else set_displayed_time None s)
        else
          (if truthy (displayed_time s) then
             seq (if is_display_idle e then seq (call MouthReset) (call RemoveActive) else skip)
                 (set_displayed_time None) s
           else (Inr (), s)))))))) s)"

text \<open>
  \<^verbatim>\<open>TimeSkill.handle_query_time\<close> for a message with the utterance \<open>utt\<close>; the location
  is what \<^verbatim>\<open>_extract_location\<close> finds in it.
\<close>

definition handle_query_time :: "env \<Rightarrow> string \<Rightarrow> unit action" where
  "handle_query_time e utt =
     (let location = extract_location e utt
      in bind_action (run_traced (\<lambda>s. get_spoken_current_time e s location None False))
           (\<lambda>current_time.
              if \<not> truthy current_time then skip
              else
                seq (call (SpeakDialog ''time.current'' ''time'' current_time))
               (seq (set_answering_query True)
               (seq (call DeactivateMouthEvents)
               (bind_action (run_traced (\<lambda>s. get_display_current_time e s location None))
                  (\<lambda>t. seq (display e t)
               (seq (call (Sleep 5))
               (seq (call WaitWhileSpeaking)
               (seq (call MouthReset)
               (seq (call ActivateMouthEvents)
               (seq (set_answering_query False)
                    (set_displayed_time None))))))))))))"

text \<open>The skill after a run of ticks, each with what it reads and its \<open>force\<close> argument.\<close>

fun ticks :: "(env \<times> bool) list \<Rightarrow> skill \<Rightarrow> skill" where
  "ticks [] s = s"
| "ticks ((e, force) # rest) s = ticks rest (snd (update_display e force s))"

text \<open>The calls that draw on the display, and the call that erases it.\<close>

fun is_draw :: "event \<Rightarrow> bool" where
  "is_draw (MouthDisplay code x refresh) = True"
| "is_draw GuiClear = True"
| "is_draw (GuiShowPage page) = True"
| "is_draw ev = False"

fun is_erase :: "event \<Rightarrow> bool" where
  "is_erase MouthReset = True"
| "is_erase ev = False"

section \<open>What the claims speak of\<close>

text \<open>
  The three exact lookups all miss, so \<^verbatim>\<open>get_timezone\<close> goes on to the fuzzy scan.
\<close>

definition no_exact_match :: "env \<Rightarrow> string \<Rightarrow> bool" where
  "no_exact_match e locale \<longleftrightarrow>
     astral_timezone e locale = None \<and> pytz_timezone e locale = None \<and>
     alias_scan e locale (map fst (timezone_value e)) = None"

text \<open>
  The confirmation phrase in the words of the specification. A letter-case boundary is
  a lower-case letter with an upper-case letter right after it; splitting the boundaries
  of a word puts a space between the two letters of each. The phrase is made of the path
  segments of the candidate, each with its letter-case boundaries split and its
  underscores replaced by spaces, reversed and joined with spaces.
\<close>

definition split_case_boundaries :: "string \<Rightarrow> string" where
  "split_case_boundaries s =
     concat (map (\<lambda>(c, after).
                    if is_lower c \<and> (case after of Some d \<Rightarrow> is_upper d | None \<Rightarrow> False)
                    then [c, CHR '' ''] else [c])
                 (zip s (map Some (tl s) @ [None])))"

definition reversed_segments_phrase :: "string \<Rightarrow> string" where
  "reversed_segments_phrase name =
     join '' '' (rev (map (\<lambda>seg. replace_underscore (split_case_boundaries seg))
                        (split CHR ''/'' name)))"

text \<open>A string of ASCII characters, as the names of the catalogue are.\<close>

definition ascii :: "string \<Rightarrow> bool" where
  "ascii s \<longleftrightarrow> list_all (\<lambda>c. (of_char c :: nat) < 128) s"

text \<open>A table entry whose value is a string.\<close>

fun well_formed :: "string \<times> pyval \<Rightarrow> bool" where
  "well_formed (k, PyStr v) = True"
| "well_formed (k, v) = False"

text \<open>The calls made since the skill was \<open>s\<close>.\<close>

definition calls_since :: "skill \<Rightarrow> skill \<Rightarrow> event list" where
  "calls_since s s' = drop (length (calls s)) (calls s')"

text \<open>The number of times a time page was drawn: each \<^verbatim>\<open>display\<close> that draws ends with one.\<close>

definition draw_count :: "event list \<Rightarrow> nat" where
  "draw_count evs = length (filter (\<lambda>ev. ev = GuiShowPage ''time.qml'') evs)"

section \<open>Sample surroundings\<close>

text \<open>
  A small world to run the code in: one known place, three catalogue names, one table
  entry, a similarity that knows equal strings and a few pairs, a user who answers yes,
  a Mark 1.
\<close>

definition sample_fuzzy_match :: "string \<Rightarrow> string \<Rightarrow> real" where
  "sample_fuzzy_match x against =
     (if x = against then 1
      else if x = ''north dakota'' \<and> against = ''dakota'' then 2 / 3
      else if x = ''north dakota center'' \<and> against = ''dakota'' then 12 / 25
      else if x = ''center north dakota'' \<and> against = ''dakota'' then 12 / 25
      else if x = ''easterisland'' \<and> against = ''easter'' then 2 / 3
      else 0)"

definition sample_env :: env where
  "sample_env =
     \<lparr> astral = (\<lambda>locale. if locale = ''Paris'' then Some ''Europe/Paris'' else None),
       pytz_timezone = (\<lambda>name.
         if name \<in> set [''Australia/Sydney'', ''America/North_Dakota/Center'', ''Asia/Shanghai'',
                          ''Europe/Paris'', ''America/Paris'', ''Chile/EasterIsland'']
         then Some (TZ name) else None),
       all_timezones = [''America/North_Dakota/Center'', ''Asia/Shanghai'', ''Australia/Sydney''],
       timezone_value = [(''china'', PyStr ''Asia/Shanghai '')],
       fuzzy_match = sample_fuzzy_match,
       ask_yesno = (\<lambda>say. Some ''yes''),
       location_timezone = ''Australia/Sydney'',
       now_utc = (0, TZ ''UTC''),
       nice_time = (\<lambda>dt speech use_24hour use_ampm. ''12:34''),
       strftime = (\<lambda>dt fmt. ''11/3/2026''),
       time_format = Some ''full'',
       date_format = Some ''MDY'',
       platform = Some ''mycroft_mark_1'',
       get_active = [],
       active_alarms = None,
       extract_location = (\<lambda>utt. None) \<rparr>"

text \<open>The skill as \<^verbatim>\<open>__init__\<close> leaves it, with the \<^verbatim>\<open>show_time\<close> setting as given.\<close>

definition init_skill :: "bool \<Rightarrow> skill" where
  "init_skill show =
     \<lparr> displayed_time = None, display_tz = None, answering_query = False,
       show_time = show, gui = (\<lambda>key. None), calls = [] \<rparr>"

text \<open>The display strings of a local datetime, as the tick formats them.\<close>

definition time_text :: "env \<Rightarrow> datetime \<Rightarrow> string" where
  "time_text e dt = nice_time e dt False (use_24hour e) False"

definition date_text :: "env \<Rightarrow> datetime \<Rightarrow> string" where
  "date_text e dt =
     (if date_format e = Some ''MDY'' then strftime e dt ''%-m/%-d/%Y''
      else strftime e dt ''%Y/%-d/%-m'')"

text \<open>The calls that draw on the display or erase it, out of a list of calls.\<close>

definition display_calls :: "event list \<Rightarrow> event list" where
  "display_calls evs = filter (\<lambda>ev. is_draw ev \<or> is_erase ev) evs"

text \<open>The skill after the first three statements of a tick that is not held off.\<close>

definition refreshed :: "env \<Rightarrow> skill \<Rightarrow> event list \<Rightarrow> datetime \<Rightarrow> skill" where
  "refreshed e s evs dt =
     s\<lparr>gui := (gui s)(''time_string'' \<mapsto> PyStr (time_text e dt),
                        ''date_string'' \<mapsto> PyStr (date_text e dt),
                        ''ampm_string'' \<mapsto> PyStr []),
       calls := calls s @ evs @ evs\<rparr>"

text \<open>A display manager that reports another skill as the owner of the display.\<close>

definition busy_env :: env where
  "busy_env = sample_env\<lparr>get_active := ''AlarmSkill''\<rparr>"

text \<open>The same, with a configured timezone that nothing resolves.\<close>

definition lost_env :: env where
  "lost_env = busy_env\<lparr>location_timezone := ''Nowhere''\<rparr>"

text \<open>The skill after one tick that drew the time, the idle display being wanted.\<close>

definition shown_skill :: skill where
  "shown_skill = snd (update_display sample_env False (init_skill True))"

text \<open>The skill with the idle display wanted and a minute-old text on show.\<close>

definition stale_skill :: skill where
  "stale_skill = (init_skill True)\<lparr>displayed_time := Some ''12:33''\<rparr>"

text \<open>
  A lookup table with one entry beyond ASCII: the key \<open>m\<close>, u with diaeresis (252),
  \<open>nchen\<close>, and a value that ends in a no-break space (160).
\<close>

definition latin1_env :: env where
  "latin1_env =
     sample_env\<lparr>timezone_value :=
       [(CHR ''m'' # CHR 0xFC # ''nchen'', PyStr (''Europe/Paris'' @ [CHR 0xA0]))]\<rparr>"

section \<open>The fuzzy scan\<close>

lemma split_nonempty: "split sep s \<noteq> []"
  by (induction s) (auto split: list.splits)

lemma best_scan_append:
  "best_scan e t best (xs @ ys) = best_scan e t (best_scan e t best xs) ys"
  by (induction xs arbitrary: best) (simp_all add: Let_def)

lemma best_scan_keep:
  "\<forall>x\<in>set post. zone_score e t x < b \<Longrightarrow> best_scan e t (Some (b, bn)) post = Some (b, bn)"
  by (induction post) simp_all

lemma best_scan_bounded:
  assumes "\<forall>x\<in>set pre. zone_score e t x \<le> m"
    and "case best of None \<Rightarrow> True | Some (b, bn) \<Rightarrow> b \<le> m"
  shows "case best_scan e t best pre of None \<Rightarrow> True | Some (b, bn) \<Rightarrow> b \<le> m"
  using assms
proof (induction pre arbitrary: best)
  case Nil
  then show ?case by simp
next
  case (Cons a pre)
  let ?next = "case best of None \<Rightarrow> Some (zone_score e t a, a)
     | Some (b, bname) \<Rightarrow> if zone_score e t a \<ge> b then Some (zone_score e t a, a) else Some (b, bname)"
  have "case ?next of None \<Rightarrow> True | Some (b, bn) \<Rightarrow> b \<le> m"
    using Cons.prems by (auto split: option.splits)
  moreover have "\<forall>x\<in>set pre. zone_score e t x \<le> m"
    using Cons.prems by simp
  ultimately have "case best_scan e t ?next pre of None \<Rightarrow> True | Some (b, bn) \<Rightarrow> b \<le> m"
    by (rule Cons.IH[rotated])
  then show ?case by (simp add: Let_def)
qed

text \<open>The score of a name with exactly two segments, and of one with three.\<close>

lemma zone_score_two_segments:
  "split CHR ''/'' (replace_underscore (lower name)) = [a, b] \<Longrightarrow>
   zone_score e target name =
     max (fuzzy_match e b target)
       (max (fuzzy_match e (a @ '' '' @ b) target) (fuzzy_match e (b @ '' '' @ a) target))"
  by (simp add: zone_score_def)

lemma zone_score_three_segments:
  "split CHR ''/'' (replace_underscore (lower name)) = [a, b, c] \<Longrightarrow>
   zone_score e target name =
     max (fuzzy_match e b target)
       (max (fuzzy_match e (b @ '' '' @ c) target) (fuzzy_match e (c @ '' '' @ b) target))"
  by (simp add: zone_score_def)

lemma normalized_north_dakota:
  "split CHR ''/'' (replace_underscore (lower ''America/North_Dakota/Center''))
     = [''america'', ''north dakota'', ''center'']"
  by (simp add: lower_def lower_char_def is_upper_def replace_underscore_def)

section \<open>The confirmation phrase\<close>

lemma split_map:
  assumes "f sep = sep" and "\<And>c. c \<noteq> sep \<Longrightarrow> f c \<noteq> sep"
  shows "split sep (map f s) = map (map f) (split sep s)"
  using assms by (induction s) (auto split: list.splits)

lemma split_replace_underscore:
  "split CHR ''/'' (replace_underscore s) = map replace_underscore (split CHR ''/'' s)"
  unfolding replace_underscore_def by (rule split_map) auto

lemma slash_no_letter: "\<not> in_a_z CHR ''/''" "\<not> in_A_Z CHR ''/''"
  by (simp_all add: in_a_z_def in_A_Z_def)

lemma split_re_sub_case:
  "split CHR ''/'' (re_sub_case s) = map re_sub_case (split CHR ''/'' s)"
proof (induction s rule: re_sub_case.induct)
  case (1 a b cs)
  then show ?case
    using slash_no_letter split_nonempty[of "CHR ''/''" cs]
    by (cases "split CHR ''/'' cs") (auto split: list.splits if_splits)
qed simp_all

text \<open>On ASCII characters the classes of the pattern are the letters.\<close>

lemma ascii_letters:
  "(of_char c :: nat) < 128 \<Longrightarrow> is_lower c = in_a_z c"
  "(of_char c :: nat) < 128 \<Longrightarrow> is_upper c = in_A_Z c"
  by (auto simp: is_lower_def is_upper_def in_a_z_def in_A_Z_def)

lemma split_case_boundaries_Cons:
  "split_case_boundaries (a # b # cs) =
     (if is_lower a \<and> is_upper b then [a, CHR '' ''] else [a]) @ split_case_boundaries (b # cs)"
  by (simp add: split_case_boundaries_def)

text \<open>The substitution splits the letter-case boundaries of an ASCII string.\<close>

lemma re_sub_case_splits_boundaries:
  "ascii s \<Longrightarrow> re_sub_case s = split_case_boundaries s"
proof (induction s rule: re_sub_case.induct)
  case (1 a b cs)
  then have "is_lower a = in_a_z a" and "is_upper b = in_A_Z b" and "ascii (b # cs)"
    by (simp_all add: ascii_def ascii_letters)
  with 1 show ?case
    by (simp add: split_case_boundaries_Cons)
qed (simp_all add: split_case_boundaries_def)

lemma split_segments_subset:
  "\<forall>seg\<in>set (split sep s). set seg \<subseteq> set s"
proof (induction s)
  case Nil
  show ?case by simp
next
  case (Cons c cs)
  obtain w ws where sp: "split sep cs = w # ws"
    using split_nonempty[of sep cs] by (cases "split sep cs") auto
  with Cons have "set w \<subseteq> set cs" and "\<forall>seg\<in>set ws. set seg \<subseteq> set cs"
    by auto
  then show ?case
    using sp by auto
qed

lemma ascii_segments:
  "ascii name \<Longrightarrow> seg \<in> set (split sep name) \<Longrightarrow> ascii seg"
  using split_segments_subset[of sep name]
  by (auto simp: ascii_def list_all_iff)

text \<open>
  The phrase the code builds for an ASCII name is the phrase the specification
  describes.
\<close>

lemma speakable_is_reversed_segments:
  assumes "ascii name"
  shows "speakable name = reversed_segments_phrase name"
proof -
  have segs: "map re_sub_case (split CHR ''/'' name)
      = map split_case_boundaries (split CHR ''/'' name)"
    using ascii_segments[OF assms] by (simp add: re_sub_case_splits_boundaries)
  have "speakable name
      = join '' '' (rev (map replace_underscore (map re_sub_case (split CHR ''/'' name))))"
    by (simp only: speakable_def split_replace_underscore split_re_sub_case)
  also have "\<dots>
      = join '' '' (rev (map replace_underscore (map split_case_boundaries (split CHR ''/'' name))))"
    by (simp only: segs)
  also have "\<dots> = reversed_segments_phrase name"
    by (simp add: reversed_segments_phrase_def comp_def)
  finally show ?thesis .
qed

section \<open>The lookup table\<close>

lemma alias_scan_no_match:
  "\<forall>k\<in>set ks. lower locale \<noteq> lower k \<Longrightarrow> alias_scan e locale ks = None"
  by (induction ks) simp_all

lemma alias_scan_first_match:
  assumes "\<forall>k\<in>set pre. lower locale \<noteq> lower k" and "lower locale = lower key"
  shows "alias_scan e locale (pre @ key # post) =
     Some (case map_of (timezone_value e) key of
             None \<Rightarrow> Inl KeyError
           | Some (PyStr v) \<Rightarrow> timezone_or_raise e (strip v)
           | Some _ \<Rightarrow> Inl AttributeError)"
  using assms by (induction pre) simp_all

lemma map_of_first_entry:
  assumes "\<forall>p\<in>set pre. fst p \<noteq> key"
  shows "map_of (pre @ (key, v) # post) key = Some v"
  using assms by (induction pre) auto

text \<open>
  Entries that are not well formed and whose keys do not match the query change neither
  the scan of the keys nor the lookups it makes.
\<close>

lemma map_of_filter_well_formed:
  assumes "\<forall>p\<in>set tzs. \<not> well_formed p \<longrightarrow> lower locale \<noteq> lower (fst p)"
    and "lower locale = lower key"
  shows "map_of (filter well_formed tzs) key = map_of tzs key"
  using assms by (induction tzs) auto

lemma alias_scan_filter_well_formed:
  assumes "\<forall>p\<in>set ps. \<not> well_formed p \<longrightarrow> lower locale \<noteq> lower (fst p)"
    and "\<forall>p\<in>set (timezone_value e). \<not> well_formed p \<longrightarrow> lower locale \<noteq> lower (fst p)"
  shows "alias_scan (e\<lparr>timezone_value := filter well_formed (timezone_value e)\<rparr>) locale
           (map fst (filter well_formed ps))
         = alias_scan e locale (map fst ps)"
  using assms(1)
proof (induction ps)
  case Nil
  then show ?case by simp
next
  case (Cons p ps)
  obtain k v where p: "p = (k, v)" by (cases p)
  show ?case
  proof (cases "lower locale = lower k")
    case True
    with Cons.prems p have wf: "well_formed (k, v)" by auto
    have "map_of (filter well_formed (timezone_value e)) k = map_of (timezone_value e) k"
      using assms(2) True by (rule map_of_filter_well_formed)
    with True wf p show ?thesis
      by (simp add: timezone_or_raise_def split: option.splits pyval.splits)
  next
    case False
    with Cons p show ?thesis by simp
  qed
qed

lemma zone_score_timezone_value:
  "zone_score (e\<lparr>timezone_value := tzs\<rparr>) target name = zone_score e target name"
  by (simp add: zone_score_def Let_def)

lemma best_scan_timezone_value:
  "best_scan (e\<lparr>timezone_value := tzs\<rparr>) target best names = best_scan e target best names"
  by (induction names arbitrary: best) (simp_all add: zone_score_timezone_value)

section \<open>The sample surroundings, evaluated\<close>

lemma sample_scores:
  "zone_score sample_env target ''America/North_Dakota/Center'' =
     max (sample_fuzzy_match ''north dakota'' target)
       (max (sample_fuzzy_match ''north dakota center'' target)
            (sample_fuzzy_match ''center north dakota'' target))"
  "zone_score sample_env target ''Asia/Shanghai'' =
     max (sample_fuzzy_match ''shanghai'' target)
       (max (sample_fuzzy_match ''asia shanghai'' target)
            (sample_fuzzy_match ''shanghai asia'' target))"
  "zone_score sample_env target ''Australia/Sydney'' =
     max (sample_fuzzy_match ''sydney'' target)
       (max (sample_fuzzy_match ''australia sydney'' target)
            (sample_fuzzy_match ''sydney australia'' target))"
  by (simp_all add: zone_score_def sample_env_def lower_def lower_char_def is_upper_def
      replace_underscore_def)

lemma sample_catalogue:
  "all_timezones sample_env = [''America/North_Dakota/Center'', ''Asia/Shanghai'', ''Australia/Sydney'']"
  by (simp add: sample_env_def)

lemma sample_best:
  "best_scan sample_env ''sydney'' None (all_timezones sample_env) = Some (1, ''Australia/Sydney'')"
  "best_scan sample_env ''atlantis'' None (all_timezones sample_env) = Some (0, ''Australia/Sydney'')"
  "best_scan sample_env ''dakota'' None (all_timezones sample_env)
     = Some (2 / 3, ''America/North_Dakota/Center'')"
  by (simp_all add: sample_catalogue sample_scores sample_fuzzy_match_def)

lemma sample_lower:
  "lower ''sydney'' = ''sydney''" "lower ''atlantis'' = ''atlantis''" "lower ''dakota'' = ''dakota''"
  by (simp_all add: lower_def lower_char_def is_upper_def)

lemma sample_no_exact_match:
  "no_exact_match sample_env ''sydney''"
  "no_exact_match sample_env ''atlantis''"
  "no_exact_match sample_env ''dakota''"
  by (simp_all add: no_exact_match_def astral_timezone_def sample_env_def lower_def
      lower_char_def is_upper_def)

lemma no_exact_match_catalogue:
  "no_exact_match (e\<lparr>all_timezones := names\<rparr>) locale = no_exact_match e locale"
proof -
  have "alias_scan (e\<lparr>all_timezones := names\<rparr>) locale ks = alias_scan e locale ks" for ks
    by (induction ks)
      (simp_all add: timezone_or_raise_def cong: option.case_cong pyval.case_cong)
  then show ?thesis
    by (simp add: no_exact_match_def astral_timezone_def cong: option.case_cong)
qed

lemma sample_phrase:
  "reversed_segments_phrase ''America/North_Dakota/Center'' = ''Center North Dakota America''"
  "reversed_segments_phrase ''Chile/EasterIsland'' = ''Easter Island Chile''"
  by (simp_all add: reversed_segments_phrase_def split_case_boundaries_def replace_underscore_def
      is_lower_def is_upper_def)

lemma sample_ascii:
  "ascii ''America/North_Dakota/Center''" "ascii ''Chile/EasterIsland''"
  by (simp_all add: ascii_def)

text \<open>
  Beyond ASCII: a capital U with diaeresis (220) is lowered to the small one (252), the
  multiplication sign and the sharp s stay, the no-break space and the next-line
  character are stripped, and the pattern of the substitution does not see an accented
  capital.
\<close>

lemma latin1_examples:
  "lower [CHR ''M'', CHR 0xDC, CHR ''N''] = [CHR ''m'', CHR 0xFC, CHR ''n'']"
  "lower [CHR 0xD7, CHR 0xDF] = [CHR 0xD7, CHR 0xDF]"
  "strip (''Asia/Shanghai'' @ [CHR 0xA0, CHR 0x85]) = ''Asia/Shanghai''"
  "re_sub_case [CHR ''a'', CHR 0xC0, CHR ''b'', CHR ''C''] = [CHR ''a'', CHR 0xC0, CHR ''b'', CHR '' '', CHR ''C'']"
  by (simp_all add: lower_def lower_char_def is_upper_def strip_def is_space_def in_a_z_def
      in_A_Z_def)

section \<open>The methods that only read the skill\<close>

lemma get_local_datetime_frame [simp]:
  "get_local_datetime e (s\<lparr>gui := g\<rparr>) = get_local_datetime e s"
  "get_local_datetime e (s\<lparr>calls := c\<rparr>) = get_local_datetime e s"
  "get_local_datetime e (s\<lparr>displayed_time := d\<rparr>) = get_local_datetime e s"
  "get_local_datetime e (s\<lparr>answering_query := b\<rparr>) = get_local_datetime e s"
  by (simp_all add: get_local_datetime_def fun_eq_iff)

lemma get_display_date_frame [simp]:
  "get_display_date e (s\<lparr>gui := g\<rparr>) = get_display_date e s"
  "get_display_date e (s\<lparr>calls := c\<rparr>) = get_display_date e s"
  "get_display_date e (s\<lparr>displayed_time := d\<rparr>) = get_display_date e s"
  "get_display_date e (s\<lparr>answering_query := b\<rparr>) = get_display_date e s"
  by (simp_all add: get_display_date_def fun_eq_iff cong: option.case_cong)

lemma get_display_current_time_frame [simp]:
  "get_display_current_time e (s\<lparr>gui := g\<rparr>) = get_display_current_time e s"
  "get_display_current_time e (s\<lparr>calls := c\<rparr>) = get_display_current_time e s"
  "get_display_current_time e (s\<lparr>displayed_time := d\<rparr>) = get_display_current_time e s"
  "get_display_current_time e (s\<lparr>answering_query := b\<rparr>) = get_display_current_time e s"
  by (simp_all add: get_display_current_time_def fun_eq_iff)

lemma current_time_available:
  "get_local_datetime e s location dtUTC = (evs, Inr (Some dt)) \<Longrightarrow>
   get_display_current_time e s location dtUTC = (evs, Inr (Some (time_text e dt)))"
  by (simp add: get_display_current_time_def bind_traced_def time_text_def)

lemma display_date_available:
  "get_local_datetime e s location None = (evs, Inr (Some dt)) \<Longrightarrow>
   get_display_date e s None location = (evs, Inr (date_text e dt))"
  by (simp add: get_display_date_def bind_traced_def date_text_def)

text \<open>The calls of a lookup: none, or one question to the user.\<close>

lemma get_timezone_calls:
  "display_calls (fst (get_timezone e locale)) = []"
  by (simp add: get_timezone_def display_calls_def Let_def split: option.splits prod.splits)

lemma display_calls_append [simp]:
  "display_calls (xs @ ys) = display_calls xs @ display_calls ys"
  by (simp add: display_calls_def)

lemma display_calls_simps [simp]:
  "display_calls [] = []"
  "display_calls (RemoveActive # evs) = display_calls evs"
  "display_calls (SpeakDialog d k v # evs) = display_calls evs"
  "display_calls (AskYesNo d p # evs) = display_calls evs"
  "display_calls (MouthReset # evs) = MouthReset # display_calls evs"
  "display_calls (GuiClear # evs) = GuiClear # display_calls evs"
  "display_calls (GuiShowPage page # evs) = GuiShowPage page # display_calls evs"
  "display_calls (MouthDisplay code x r # evs) = MouthDisplay code x r # display_calls evs"
  by (simp_all add: display_calls_def)

lemma get_local_datetime_calls:
  "display_calls (fst (get_local_datetime e s location dtUTC)) = []"
proof -
  have tz: "display_calls (fst (get_timezone e l)) = []" for l
    by (rule get_timezone_calls)
  show ?thesis
    using tz[of "location_timezone e"] tz[of "the location"]
    by (auto simp: get_local_datetime_def bind_traced_def Let_def
        split: option.splits prod.splits sum.splits if_splits)
qed

lemma local_datetime_quiet:
  "get_local_datetime e s location dtUTC = (evs, r) \<Longrightarrow> display_calls evs = []"
  using get_local_datetime_calls[of e s location dtUTC] by simp

lemma draw_count_append [simp]:
  "draw_count (xs @ ys) = draw_count xs + draw_count ys"
  by (simp add: draw_count_def)

lemma draw_count_simps [simp]:
  "draw_count [] = 0"
  "draw_count (GuiShowPage ''time.qml'' # evs) = Suc (draw_count evs)"
  "draw_count (RemoveActive # evs) = draw_count evs"
  "draw_count (GuiClear # evs) = draw_count evs"
  "draw_count (MouthReset # evs) = draw_count evs"
  "draw_count (MouthDisplay code x r # evs) = draw_count evs"
  by (simp_all add: draw_count_def)

lemma draw_count_quiet: "display_calls evs = [] \<Longrightarrow> draw_count evs = 0"
  by (induction evs) (auto simp: display_calls_def draw_count_def split: if_splits)

lemma draw_count_draw_chars [simp]: "draw_count (draw_chars x cs) = 0"
  by (induction cs arbitrary: x) (simp_all split: option.splits)

lemma draw_count_display_mark1 [simp]: "draw_count (display_mark1 e t) = 0"
  by (simp add: display_mark1_def)

lemma calls_since_append [simp]:
  "calls s' = calls s @ evs \<Longrightarrow> calls_since s s' = evs"
  by (simp add: calls_since_def)

section \<open>Drawing\<close>

lemmas action_defs =
  bind_action_def seq_def skip_def call_def call_all_def run_traced_def gui_set_def
  gui_clear_def set_displayed_time_def set_answering_query_def

text \<open>The calls of one \<^verbatim>\<open>display\<close> that draws, when the date is at hand.\<close>

lemma display_gui_available:
  assumes "get_local_datetime e s None None = (evs, Inr (Some dt))"
  shows "display_gui e t s =
     (Inr (),
      s\<lparr>gui := (\<lambda>key. None)(''time_string'' \<mapsto> PyStr t, ''ampm_string'' \<mapsto> PyStr [],
                ''date_string'' \<mapsto> PyStr (date_text e dt)),
        calls := calls s @ [GuiClear] @ evs @ [GuiShowPage ''time.qml'']\<rparr>)"
  using display_date_available[OF assms]
  by (simp add: display_gui_def action_defs)

lemma display_available:
  assumes "get_local_datetime e s None None = (evs, Inr (Some dt))" and "t \<noteq> []"
  shows "display e (Some t) s =
     (Inr (),
      s\<lparr>gui := (\<lambda>key. None)(''time_string'' \<mapsto> PyStr t, ''ampm_string'' \<mapsto> PyStr [],
                ''date_string'' \<mapsto> PyStr (date_text e dt)),
        calls := calls s
          @ (if platform e = Some ''mycroft_mark_1'' then display_mark1 e t else [])
          @ [GuiClear] @ evs @ [GuiShowPage ''time.qml'']\<rparr>)"
proof (cases "platform e = Some ''mycroft_mark_1''")
  case True
  have "get_local_datetime e (s\<lparr>calls := calls s @ display_mark1 e t\<rparr>) None None
      = (evs, Inr (Some dt))"
    using assms(1) by simp
  from display_gui_available[OF this, of t] True assms(2) show ?thesis
    by (simp add: display_def action_defs)
next
  case False
  from display_gui_available[OF assms(1), of t] False assms(2) show ?thesis
    by (simp add: display_def action_defs)
qed

lemma display_nothing: "\<not> truthy t \<Longrightarrow> display e t s = (Inr (), s)"
  by (simp add: display_def truthy_def skip_def split: option.splits)

section \<open>The tick\<close>

lemma tick_held: "answering_query s \<Longrightarrow> update_display e force s = (Inr (), s)"
  by (simp add: update_display_def)

lemma tick_yield:
  assumes "\<not> answering_query s" and "show_time s" and "\<not> force" and "\<not> is_display_idle e"
    and "get_local_datetime e s None None = (evs, Inr (Some dt))"
  shows "update_display e force s = (Inr (), (refreshed e s evs dt)\<lparr>displayed_time := None\<rparr>)"
  using assms current_time_available[OF assms(5)] display_date_available[OF assms(5)]
  by (simp add: update_display_def action_defs refreshed_def str_or_none_def)

lemma tick_same_text:
  assumes "\<not> answering_query s" and "show_time s" and "force \<or> is_display_idle e"
    and "get_local_datetime e s None None = (evs, Inr (Some dt))"
    and "displayed_time s = Some (time_text e dt)"
  shows "update_display e force s =
     (Inr (), (refreshed e s evs dt)\<lparr>calls := calls s @ evs @ evs @ evs\<rparr>)"
  using assms current_time_available[OF assms(4)] display_date_available[OF assms(4)]
  by (simp add: update_display_def action_defs refreshed_def str_or_none_def)

lemma tick_new_text:
  assumes "\<not> answering_query s" and "show_time s" and "force \<or> is_display_idle e"
    and "get_local_datetime e s None None = (evs, Inr (Some dt))"
    and "displayed_time s \<noteq> Some (time_text e dt)" and "time_text e dt \<noteq> []"
  shows "update_display e force s =
     (Inr (),
      s\<lparr>displayed_time := Some (time_text e dt),
        gui := (\<lambda>key. None)(''time_string'' \<mapsto> PyStr (time_text e dt),
                ''ampm_string'' \<mapsto> PyStr [], ''date_string'' \<mapsto> PyStr (date_text e dt)),
        calls := calls s @ evs @ evs @ evs
          @ (if platform e = Some ''mycroft_mark_1'' then display_mark1 e (time_text e dt) else [])
          @ [GuiClear] @ evs @ [GuiShowPage ''time.qml'', RemoveActive]\<rparr>)"
proof -
  let ?s3 = "(refreshed e s evs dt)\<lparr>calls := calls s @ evs @ evs @ evs,
      displayed_time := Some (time_text e dt)\<rparr>"
  have "get_local_datetime e ?s3 None None = (evs, Inr (Some dt))"
    using assms(4) by (simp add: refreshed_def)
  from display_available[OF this assms(6)]
  have d: "display e (Some (time_text e dt)) ?s3 =
     (Inr (),
      ?s3\<lparr>gui := (\<lambda>key. None)(''time_string'' \<mapsto> PyStr (time_text e dt),
                ''ampm_string'' \<mapsto> PyStr [], ''date_string'' \<mapsto> PyStr (date_text e dt)),
        calls := calls ?s3
          @ (if platform e = Some ''mycroft_mark_1'' then display_mark1 e (time_text e dt) else [])
          @ [GuiClear] @ evs @ [GuiShowPage ''time.qml'']\<rparr>)" .
  show ?thesis
    using assms current_time_available[OF assms(4)] display_date_available[OF assms(4)] d
    by (simp add: update_display_def action_defs refreshed_def str_or_none_def)
qed

lemma tick_empty_text:
  assumes "\<not> answering_query s" and "show_time s" and "force \<or> is_display_idle e"
    and "get_local_datetime e s None None = (evs, Inr (Some dt))"
    and "displayed_time s \<noteq> Some (time_text e dt)" and "time_text e dt = []"
  shows "update_display e force s =
     (Inr (),
      (refreshed e s evs dt)\<lparr>displayed_time := Some [],
        calls := calls s @ evs @ evs @ evs @ [RemoveActive]\<rparr>)"
  using assms current_time_available[OF assms(4)] display_date_available[OF assms(4)]
  by (simp add: update_display_def action_defs refreshed_def str_or_none_def display_def)

lemma tick_disabled:
  assumes "\<not> answering_query s" and "\<not> show_time s"
    and "get_local_datetime e s None None = (evs, Inr (Some dt))"
  shows "update_display e force s =
     (Inr (),
      if truthy (displayed_time s) then
        (refreshed e s evs dt)\<lparr>displayed_time := None,
          calls := calls s @ evs @ evs
            @ (if is_display_idle e then [MouthReset, RemoveActive] else [])\<rparr>
      else refreshed e s evs dt)"
  using assms current_time_available[OF assms(3)] display_date_available[OF assms(3)]
  by (simp add: update_display_def action_defs refreshed_def str_or_none_def)

text \<open>
  A tick that finds no timezone writes \<open>None\<close> as the time string and stops in
  \<^verbatim>\<open>get_display_date\<close>, which formats a datetime that is not there.
\<close>

lemma tick_without_datetime:
  assumes "\<not> answering_query s" and "get_local_datetime e s None None = (evs, Inr None)"
  shows "update_display e force s =
     (Inl AttributeError,
      s\<lparr>gui := (gui s)(''time_string'' \<mapsto> PyNone), calls := calls s @ evs @ evs\<rparr>)"
  using assms
  by (simp add: update_display_def action_defs get_display_current_time_def
      get_display_date_def bind_traced_def str_or_none_def)

section \<open>Claims about location resolution\<close>

text \<open>
  C1, as amended. \<^verbatim>\<open>get_timezone\<close> does not trim the query, and it tries the known
  places before everything else. For the query exactly as given: what the known-place
  lookup resolves is returned; else what \<^verbatim>\<open>pytz.timezone\<close> accepts (a catalogue
  identifier verbatim) is returned; else, when the query equals a key of the lookup table
  without regard to case, the timezone named by the stripped value of the first such key
  is returned. In none of the three is the user asked for confirmation.
\<close>

theorem exact_lookup_without_confirmation:
  "(astral_timezone e locale = Some tz \<longrightarrow> get_timezone e locale = ([], Inr (Some tz))) \<and>
   (astral_timezone e locale = None \<and> pytz_timezone e locale = Some tz \<longrightarrow>
      get_timezone e locale = ([], Inr (Some tz))) \<and>
   (astral_timezone e locale = None \<and> pytz_timezone e locale = None \<and>
    timezone_value e = pre @ (key, PyStr v) # post \<and>
    (\<forall>p\<in>set pre. lower locale \<noteq> lower (fst p)) \<and> lower locale = lower key \<and>
    pytz_timezone e (strip v) = Some tz \<longrightarrow>
      get_timezone e locale = ([], Inr (Some tz)))"
proof (intro conjI impI)
  assume "astral_timezone e locale = Some tz"
  then show "get_timezone e locale = ([], Inr (Some tz))"
    by (simp add: get_timezone_def)
next
  assume "astral_timezone e locale = None \<and> pytz_timezone e locale = Some tz"
  then show "get_timezone e locale = ([], Inr (Some tz))"
    by (simp add: get_timezone_def)
next
  assume h: "astral_timezone e locale = None \<and> pytz_timezone e locale = None \<and>
    timezone_value e = pre @ (key, PyStr v) # post \<and>
    (\<forall>p\<in>set pre. lower locale \<noteq> lower (fst p)) \<and> lower locale = lower key \<and>
    pytz_timezone e (strip v) = Some tz"
  then have keys: "map fst (timezone_value e) = map fst pre @ key # map fst post"
    by simp
  have miss: "\<forall>k\<in>set (map fst pre). lower locale \<noteq> lower k"
    using h by auto
  have "\<forall>p\<in>set pre. fst p \<noteq> key"
    using h by auto
  then have "map_of (pre @ (key, PyStr v) # post) key = Some (PyStr v)"
    by (rule map_of_first_entry)
  then have look: "map_of (timezone_value e) key = Some (PyStr v)"
    using h by simp
  have "alias_scan e locale (map fst (timezone_value e)) = Some (Inr (Some tz))"
    unfolding keys using alias_scan_first_match[OF miss, of key e "map fst post"] h look
    by (simp add: timezone_or_raise_def)
  with h show "get_timezone e locale = ([], Inr (Some tz))"
    by (simp add: get_timezone_def)
qed

theorem exact_lookup_without_confirmation_witness:
  "get_timezone sample_env ''Paris'' = ([], Inr (Some (TZ ''Europe/Paris''))) \<and>
   get_timezone sample_env ''Australia/Sydney'' = ([], Inr (Some (TZ ''Australia/Sydney''))) \<and>
   get_timezone sample_env ''CHINA'' = ([], Inr (Some (TZ ''Asia/Shanghai''))) \<and>
   get_timezone latin1_env (CHR ''M'' # CHR 0xDC # ''NCHEN'') = ([], Inr (Some (TZ ''Europe/Paris'')))"
proof -
  have latin1: "astral_timezone latin1_env (CHR ''M'' # CHR 0xDC # ''NCHEN'') = None \<and>
      pytz_timezone latin1_env (CHR ''M'' # CHR 0xDC # ''NCHEN'') = None \<and>
      timezone_value latin1_env
        = [] @ (CHR ''m'' # CHR 0xFC # ''nchen'', PyStr (''Europe/Paris'' @ [CHR 0xA0])) # [] \<and>
      (\<forall>p\<in>set []. lower (CHR ''M'' # CHR 0xDC # ''NCHEN'') \<noteq> lower (fst p)) \<and>
      lower (CHR ''M'' # CHR 0xDC # ''NCHEN'') = lower (CHR ''m'' # CHR 0xFC # ''nchen'') \<and>
      pytz_timezone latin1_env (strip (''Europe/Paris'' @ [CHR 0xA0])) = Some (TZ ''Europe/Paris'')"
    by (simp add: latin1_env_def sample_env_def astral_timezone_def lower_def lower_char_def
        is_upper_def strip_def is_space_def)
  have place: "astral_timezone sample_env ''Paris'' = Some (TZ ''Europe/Paris'')"
    by (simp add: sample_env_def astral_timezone_def)
  have tbl: "astral_timezone sample_env ''CHINA'' = None \<and>
      pytz_timezone sample_env ''CHINA'' = None \<and>
      timezone_value sample_env = [] @ (''china'', PyStr ''Asia/Shanghai '') # [] \<and>
      (\<forall>p\<in>set []. lower ''CHINA'' \<noteq> lower (fst p)) \<and> lower ''CHINA'' = lower ''china'' \<and>
      pytz_timezone sample_env (strip ''Asia/Shanghai '') = Some (TZ ''Asia/Shanghai'')"
    by (simp add: sample_env_def astral_timezone_def lower_def lower_char_def is_upper_def
        strip_def is_space_def)
  have ident: "astral_timezone sample_env ''Australia/Sydney'' = None \<and>
      pytz_timezone sample_env ''Australia/Sydney'' = Some (TZ ''Australia/Sydney'')"
    by (simp add: sample_env_def astral_timezone_def)
  show ?thesis
    using exact_lookup_without_confirmation[of sample_env "''Paris''" "TZ ''Europe/Paris''"
        "[]" "''x''" "''y''" "[]"]
      exact_lookup_without_confirmation[of sample_env "''CHINA''" "TZ ''Asia/Shanghai''"
        "[]" "''china''" "''Asia/Shanghai ''" "[]"]
      exact_lookup_without_confirmation[of sample_env "''Australia/Sydney''"
        "TZ ''Australia/Sydney''" "[]" "''x''" "''y''" "[]"]
      exact_lookup_without_confirmation[of latin1_env "CHR ''M'' # CHR 0xDC # ''NCHEN''"
        "TZ ''Europe/Paris''" "[]" "CHR ''m'' # CHR 0xFC # ''nchen''"
        "''Europe/Paris'' @ [CHR 0xA0]" "[]"]
      place tbl ident latin1
    by blast
qed

text \<open>
  C1 as stated fails: the query \<open>'' china''\<close> equals the key \<open>''china''\<close> once trimmed, the
  key is mapped to a known zone, and yet no timezone is returned.
\<close>

theorem trimmed_query_counterexample:
  "lower (strip '' china'') = lower ''china'' \<and>
   map_of (timezone_value sample_env) ''china'' = Some (PyStr ''Asia/Shanghai '') \<and>
   pytz_timezone sample_env (strip ''Asia/Shanghai '') = Some (TZ ''Asia/Shanghai'') \<and>
   get_timezone sample_env '' china'' = ([], Inr None)"
  by (simp add: sample_env_def get_timezone_def astral_timezone_def lower_def lower_char_def
      is_upper_def strip_def is_space_def zone_score_def replace_underscore_def
      sample_fuzzy_match_def)

text \<open>
  C2. The score of a name is the greatest of its three scores. The first of them is the
  similarity of the query and the segment at index 1: for a name of two segments that is
  the last segment (\<open>zone_score_two_segments\<close>), for a longer name it is not. At
  \<open>America/North_Dakota/Center\<close> the first score compares the query with \<open>north dakota\<close>,
  and the last segment \<open>center\<close> is compared only inside the two compounds, which do take
  the last two segments.
\<close>

theorem segment_score_uses_second_segment:
  "zone_score e target ''America/North_Dakota/Center'' =
     max (fuzzy_match e ''north dakota'' target)
       (max (fuzzy_match e ''north dakota center'' target)
            (fuzzy_match e ''center north dakota'' target))"
  using zone_score_three_segments[OF normalized_north_dakota, of e target] by simp

text \<open>
  C3. The scan returns the last entry that reaches the best score: an entry that no
  earlier entry beats and every later entry stays below is the result, whatever earlier
  entries tie with it.
\<close>

theorem last_best_candidate_wins:
  assumes "\<forall>x\<in>set pre. zone_score e t x \<le> zone_score e t n"
    and "\<forall>x\<in>set post. zone_score e t x < zone_score e t n"
  shows "best_scan e t None (pre @ n # post) = Some (zone_score e t n, n)"
proof -
  have b: "case best_scan e t None pre of None \<Rightarrow> True | Some (b, bn) \<Rightarrow> b \<le> zone_score e t n"
    using assms(1) by (rule best_scan_bounded) simp
  have "best_scan e t (best_scan e t None pre) [n] = Some (zone_score e t n, n)"
    using b by (auto simp: Let_def split: option.splits)
  then have "best_scan e t None (pre @ [n]) = Some (zone_score e t n, n)"
    by (simp only: best_scan_append)
  then have "best_scan e t None ((pre @ [n]) @ post) = Some (zone_score e t n, n)"
    using assms(2) by (simp only: best_scan_append best_scan_keep)
  then show ?thesis by simp
qed

theorem last_best_candidate_wins_witness:
  "zone_score sample_env ''paris'' ''Europe/Paris'' = zone_score sample_env ''paris'' ''America/Paris'' \<and>
   best_scan sample_env ''paris'' None [''Europe/Paris'', ''America/Paris'', ''Asia/Shanghai'']
     = Some (1, ''America/Paris'')"
proof -
  have s1: "zone_score sample_env ''paris'' ''Europe/Paris'' = 1"
    by (simp add: zone_score_def sample_env_def sample_fuzzy_match_def lower_def lower_char_def
        is_upper_def replace_underscore_def)
  have s2: "zone_score sample_env ''paris'' ''America/Paris'' = 1"
    by (simp add: zone_score_def sample_env_def sample_fuzzy_match_def lower_def lower_char_def
        is_upper_def replace_underscore_def)
  have s3: "zone_score sample_env ''paris'' ''Asia/Shanghai'' = 0"
    by (simp add: zone_score_def sample_env_def sample_fuzzy_match_def lower_def lower_char_def
        is_upper_def replace_underscore_def)
  show ?thesis
    using last_best_candidate_wins[of "[''Europe/Paris'']" sample_env "''paris''"
        "''America/Paris''" "[''Asia/Shanghai'']"] s1 s2 s3
    by simp
qed

text \<open>
  C4. Once the exact lookups have missed, a best score above 0.8 returns the candidate's
  timezone and a best score of at most 0.3, or an empty catalogue, returns nothing; in
  neither case is the user asked.
\<close>

theorem decision_thresholds:
  assumes "no_exact_match e locale"
  shows "(best_scan e (lower locale) None (all_timezones e) = Some (pct, name) \<and> pct > 0.8 \<longrightarrow>
            get_timezone e locale = ([], timezone_or_raise e name) \<and>
            (pytz_timezone e name = Some tz \<longrightarrow> get_timezone e locale = ([], Inr (Some tz)))) \<and>
         (best_scan e (lower locale) None (all_timezones e) = Some (pct, name) \<and> pct \<le> 0.3 \<longrightarrow>
            get_timezone e locale = ([], Inr None)) \<and>
         (all_timezones e = [] \<longrightarrow> get_timezone e locale = ([], Inr None))"
  using assms
  by (auto simp: no_exact_match_def get_timezone_def timezone_or_raise_def)

theorem decision_thresholds_witness:
  "get_timezone sample_env ''sydney'' = ([], Inr (Some (TZ ''Australia/Sydney''))) \<and>
   get_timezone sample_env ''atlantis'' = ([], Inr None) \<and>
   get_timezone (sample_env\<lparr>all_timezones := []\<rparr>) ''atlantis'' = ([], Inr None)"
proof -
  have tz: "pytz_timezone sample_env ''Australia/Sydney'' = Some (TZ ''Australia/Sydney'')"
    by (simp add: sample_env_def)
  have "get_timezone sample_env ''sydney'' = ([], Inr (Some (TZ ''Australia/Sydney'')))"
    using decision_thresholds[OF sample_no_exact_match(1), of 1 "''Australia/Sydney''"
        "TZ ''Australia/Sydney''"] sample_best(1) sample_lower tz
    by auto
  moreover have "get_timezone sample_env ''atlantis'' = ([], Inr None)"
    using decision_thresholds[OF sample_no_exact_match(2), of 0 "''Australia/Sydney''"
        "TZ ''Australia/Sydney''"] sample_best(2) sample_lower
    by auto
  moreover have "get_timezone (sample_env\<lparr>all_timezones := []\<rparr>) ''atlantis'' = ([], Inr None)"
    using decision_thresholds[of "sample_env\<lparr>all_timezones := []\<rparr>" "''atlantis''" 0 "[]"
        "TZ []"] sample_no_exact_match(2)
    by (simp add: no_exact_match_catalogue)
  ultimately show ?thesis by simp
qed

text \<open>
  C5. Once the exact lookups have missed, a best score above 0.3 and of at most 0.8 asks
  the user exactly once, and returns the candidate's timezone if the answer is yes and
  nothing otherwise. The phrase asked about is the one the specification describes: the
  path segments of the candidate, letter-case boundaries split and underscores replaced
  by spaces, reversed and joined with spaces. The candidate is a name of the catalogue,
  which is written in ASCII.
\<close>

theorem confirmation_between_thresholds:
  assumes "no_exact_match e locale"
    and "best_scan e (lower locale) None (all_timezones e) = Some (pct, name)"
    and "0.3 < pct" and "pct \<le> 0.8"
    and "ascii name"
  shows "get_timezone e locale =
           ([AskYesNo ''did.you.mean.timezone'' (reversed_segments_phrase name)],
            if ask_yesno e (reversed_segments_phrase name) = Some ''yes''
            then timezone_or_raise e name else Inr None)"
  using assms
  by (simp add: no_exact_match_def get_timezone_def speakable_is_reversed_segments Let_def)

theorem confirmation_between_thresholds_witness:
  "get_timezone (sample_env\<lparr>all_timezones := [''Chile/EasterIsland'']\<rparr>) ''easter'' =
     ([AskYesNo ''did.you.mean.timezone'' ''Easter Island Chile''],
      Inr (Some (TZ ''Chile/EasterIsland''))) \<and>
   get_timezone (sample_env\<lparr>ask_yesno := (\<lambda>say. Some ''no'')\<rparr>) ''dakota'' =
     ([AskYesNo ''did.you.mean.timezone'' ''Center North Dakota America''], Inr None)"
proof -
  let ?e = "sample_env\<lparr>all_timezones := [''Chile/EasterIsland'']\<rparr>"
  let ?n = "sample_env\<lparr>ask_yesno := (\<lambda>say. Some ''no'')\<rparr>"
  have miss: "no_exact_match ?e ''easter''"
    by (simp add: no_exact_match_def astral_timezone_def sample_env_def lower_def
        lower_char_def is_upper_def)
  have best: "best_scan ?e (lower ''easter'') None (all_timezones ?e)
      = Some (2 / 3, ''Chile/EasterIsland'')"
    by (simp add: zone_score_def sample_env_def sample_fuzzy_match_def lower_def lower_char_def
        is_upper_def replace_underscore_def)
  have "get_timezone ?e ''easter'' =
      ([AskYesNo ''did.you.mean.timezone'' (reversed_segments_phrase ''Chile/EasterIsland'')],
       if ask_yesno ?e (reversed_segments_phrase ''Chile/EasterIsland'') = Some ''yes''
       then timezone_or_raise ?e ''Chile/EasterIsland'' else Inr None)"
    using miss best sample_ascii(2)
    by (intro confirmation_between_thresholds[where pct = "2 / 3"]) simp_all
  then have yes: "get_timezone ?e ''easter'' =
      ([AskYesNo ''did.you.mean.timezone'' ''Easter Island Chile''],
       Inr (Some (TZ ''Chile/EasterIsland'')))"
    by (simp add: sample_phrase) (simp add: sample_env_def timezone_or_raise_def)
  have miss': "no_exact_match ?n ''dakota''"
    by (simp add: no_exact_match_def astral_timezone_def sample_env_def lower_def
        lower_char_def is_upper_def)
  have best': "best_scan ?n (lower ''dakota'') None (all_timezones ?n)
      = Some (2 / 3, ''America/North_Dakota/Center'')"
    by (simp add: zone_score_def sample_env_def sample_fuzzy_match_def lower_def lower_char_def
        is_upper_def replace_underscore_def)
  have "get_timezone ?n ''dakota'' =
      ([AskYesNo ''did.you.mean.timezone'' (reversed_segments_phrase ''America/North_Dakota/Center'')],
       if ask_yesno ?n (reversed_segments_phrase ''America/North_Dakota/Center'') = Some ''yes''
       then timezone_or_raise ?n ''America/North_Dakota/Center'' else Inr None)"
    using miss' best' sample_ascii(1)
    by (intro confirmation_between_thresholds[where pct = "2 / 3"]) simp_all
  then have no: "get_timezone ?n ''dakota'' =
      ([AskYesNo ''did.you.mean.timezone'' ''Center North Dakota America''], Inr None)"
    by (simp add: sample_phrase)
  from yes no show ?thesis by simp
qed

text \<open>
  C6, as amended. The entries of the lookup table whose value is not a string are passed
  over as long as their keys differ from the query: resolution then goes as it does on
  the table without them.
\<close>

theorem malformed_entries_passed_over:
  assumes "\<forall>p\<in>set (timezone_value e). \<not> well_formed p \<longrightarrow> lower locale \<noteq> lower (fst p)"
  shows "get_timezone e locale =
         get_timezone (e\<lparr>timezone_value := filter well_formed (timezone_value e)\<rparr>) locale"
proof -
  let ?e = "e\<lparr>timezone_value := filter well_formed (timezone_value e)\<rparr>"
  have "alias_scan ?e locale (map fst (filter well_formed (timezone_value e)))
      = alias_scan e locale (map fst (timezone_value e))"
    using assms assms by (rule alias_scan_filter_well_formed)
  then show ?thesis
    by (simp add: get_timezone_def astral_timezone_def best_scan_timezone_value
        timezone_or_raise_def cong: option.case_cong prod.case_cong if_cong)
qed

theorem malformed_entries_passed_over_witness:
  "get_timezone (sample_env\<lparr>timezone_value := [(''mars'', PyNone), (''china'', PyStr ''Asia/Shanghai '')]\<rparr>)
     ''china''
   = get_timezone (sample_env\<lparr>timezone_value := [(''china'', PyStr ''Asia/Shanghai '')]\<rparr>) ''china''"
  using malformed_entries_passed_over[of
      "sample_env\<lparr>timezone_value := [(''mars'', PyNone), (''china'', PyStr ''Asia/Shanghai '')]\<rparr>"
      "''china''"]
  by (simp add: lower_def lower_char_def is_upper_def)

text \<open>
  C6 as stated fails: an entry whose value is not a string and whose key is the query
  makes \<^verbatim>\<open>get_timezone\<close> raise.
\<close>

theorem malformed_entry_counterexample:
  "get_timezone (sample_env\<lparr>timezone_value := [(''china'', PyNone)]\<rparr>) ''china''
     = ([], Inl AttributeError)"
  by (simp add: sample_env_def get_timezone_def astral_timezone_def lower_def)

text \<open>
  The match of a key is the match of \<open>str.lower\<close> beyond ASCII too: the query in capitals
  finds the key with the accented letter, so the exact lookups do not miss, and a value
  under that key that is not a string raises.
\<close>

lemma latin1_key_matches:
  "\<not> no_exact_match latin1_env (CHR ''M'' # CHR 0xDC # ''NCHEN'')"
  "get_timezone (sample_env\<lparr>timezone_value := [(CHR ''m'' # CHR 0xFC # ''nchen'', PyNone)]\<rparr>)
     (CHR ''M'' # CHR 0xDC # ''NCHEN'') = ([], Inl AttributeError)"
  by (simp_all add: no_exact_match_def latin1_env_def sample_env_def get_timezone_def
      astral_timezone_def lower_def lower_char_def is_upper_def)

section \<open>What a tick reads\<close>

lemma current_time_text_available:
  assumes "snd (get_display_current_time e s None None) = Inr (Some t)"
  shows "\<exists>evs dt. get_local_datetime e s None None = (evs, Inr (Some dt)) \<and> time_text e dt = t"
  using assms
  by (cases "get_local_datetime e s None None")
    (auto simp: get_display_current_time_def bind_traced_def time_text_def
      split: sum.splits option.splits)

lemma display_date_text_available:
  assumes "snd (get_display_date e s None None) = Inr d"
  shows "\<exists>evs dt. get_local_datetime e s None None = (evs, Inr (Some dt)) \<and> date_text e dt = d"
  using assms
  by (cases "get_local_datetime e s None None")
    (auto simp: get_display_date_def bind_traced_def date_text_def
      split: sum.splits option.splits if_splits)

lemma get_timezone_identifier:
  "astral e locale = None \<Longrightarrow> pytz_timezone e locale = Some tz \<Longrightarrow>
   get_timezone e locale = ([], Inr (Some tz))"
  by (simp add: get_timezone_def astral_timezone_def)

lemma local_datetime_at_home:
  assumes "display_tz s = None" and "astral e (location_timezone e) = None"
    and "pytz_timezone e (location_timezone e) = Some tz"
  shows "get_local_datetime e s None None = ([], Inr (Some (fst (now_utc e), tz)))"
  using assms get_timezone_identifier[OF assms(2,3)]
  by (simp add: get_local_datetime_def bind_traced_def astimezone_def)

lemma sample_local_datetime:
  "display_tz s = None \<Longrightarrow>
   get_local_datetime sample_env s None None = ([], Inr (Some (0, TZ ''Australia/Sydney'')))"
  "display_tz s = None \<Longrightarrow>
   get_local_datetime busy_env s None None = ([], Inr (Some (0, TZ ''Australia/Sydney'')))"
  by (simp_all add: local_datetime_at_home[where tz = "TZ ''Australia/Sydney''"] sample_env_def
      busy_env_def)

lemma sample_texts:
  "time_text sample_env dt = ''12:34''" "date_text sample_env dt = ''11/3/2026''"
  "time_text busy_env dt = ''12:34''" "date_text busy_env dt = ''11/3/2026''"
  by (simp_all add: time_text_def date_text_def sample_env_def busy_env_def)

lemma sample_reads:
  "display_tz s = None \<Longrightarrow> snd (get_display_current_time sample_env s None None) = Inr (Some ''12:34'')"
  "display_tz s = None \<Longrightarrow> snd (get_display_date sample_env s None None) = Inr ''11/3/2026''"
  "display_tz s = None \<Longrightarrow> snd (get_display_current_time busy_env s None None) = Inr (Some ''12:34'')"
  "display_tz s = None \<Longrightarrow> snd (get_display_date busy_env s None None) = Inr ''11/3/2026''"
  using current_time_available[OF sample_local_datetime(1), of s]
    display_date_available[OF sample_local_datetime(1), of s]
    current_time_available[OF sample_local_datetime(2), of s]
    display_date_available[OF sample_local_datetime(2), of s]
  by (simp_all add: sample_texts)

section \<open>The query handler\<close>

lemma spoken_time_available:
  assumes "get_spoken_current_time e s location dtUTC force_ampm = (evs, Inr (Some spoken))"
  shows "\<exists>dt. get_local_datetime e s location dtUTC = (evs, Inr (Some dt))"
  using assms
  by (cases "get_local_datetime e s location dtUTC")
    (auto simp: get_spoken_current_time_def bind_traced_def Let_def
      split: sum.splits option.splits if_splits)

text \<open>
  A query that is answered ends with the hold released and the shown text forgotten.
\<close>

lemma handle_query_time_releases:
  assumes "get_spoken_current_time e s (extract_location e utt) None False = (evs, Inr (Some spoken))"
    and "spoken \<noteq> []"
    and "snd (get_display_date e s None None) = Inr d"
  shows "fst (handle_query_time e utt s) = Inr () \<and>
         \<not> answering_query (snd (handle_query_time e utt s)) \<and>
         displayed_time (snd (handle_query_time e utt s)) = None \<and>
         show_time (snd (handle_query_time e utt s)) = show_time s \<and>
         display_tz (snd (handle_query_time e utt s)) = display_tz s"
proof -
  obtain dt where loc: "get_local_datetime e s (extract_location e utt) None = (evs, Inr (Some dt))"
    using spoken_time_available[OF assms(1)] by blast
  obtain evs0 dt0 where home: "get_local_datetime e s None None = (evs0, Inr (Some dt0))"
    using display_date_text_available[OF assms(3)] by blast
  let ?s1 = "s\<lparr>answering_query := True,
      calls := calls s @ evs @ [SpeakDialog ''time.current'' ''time'' (Some spoken),
        DeactivateMouthEvents] @ evs\<rparr>"
  have home1: "get_local_datetime e ?s1 None None = (evs0, Inr (Some dt0))"
    using home by simp
  show ?thesis
  proof (cases "time_text e dt = []")
    case True
    with assms(1,2) current_time_available[OF loc] show ?thesis
      by (simp add: handle_query_time_def action_defs truthy_def display_def Let_def)
  next
    case False
    from display_available[OF home1 False] assms(1,2) current_time_available[OF loc]
    show ?thesis
      by (simp add: handle_query_time_def action_defs truthy_def Let_def)
  qed
qed

lemma ticks_held: "answering_query s \<Longrightarrow> ticks ts s = s"
  by (induction ts) (auto simp: tick_held)

section \<open>Claims about the display\<close>

text \<open>
  C7. While \<^verbatim>\<open>answering_query\<close> is set, no run of ticks changes the skill or makes any
  call at all, so none draws or erases. A query that is answered ends with the flag
  cleared, and the tick after it, with the idle display wanted, the display free or the
  tick forced, and a text to show, draws once.
\<close>

theorem exclusive_hold_suppresses_ticks:
  "(answering_query s \<longrightarrow>
      ticks ts s = s \<and> display_calls (calls_since s (ticks ts s)) = []) \<and>
   (get_spoken_current_time e s (extract_location e utt) None False = (evs, Inr (Some spoken)) \<and>
    spoken \<noteq> [] \<and> snd (get_display_date e s None None) = Inr d \<and>
    show_time s \<and> (force \<or> is_display_idle e') \<and>
    snd (get_display_current_time e' (snd (handle_query_time e utt s)) None None) = Inr (Some t) \<and>
    t \<noteq> [] \<longrightarrow>
      fst (handle_query_time e utt s) = Inr () \<and>
      \<not> answering_query (snd (handle_query_time e utt s)) \<and>
      draw_count (calls_since (snd (handle_query_time e utt s))
        (snd (update_display e' force (snd (handle_query_time e utt s))))) = 1)"
proof (intro conjI impI)
  assume "answering_query s"
  then show "ticks ts s = s" by (rule ticks_held)
  then show "display_calls (calls_since s (ticks ts s)) = []"
    by (simp add: calls_since_def)
next
  assume h: "get_spoken_current_time e s (extract_location e utt) None False = (evs, Inr (Some spoken)) \<and>
    spoken \<noteq> [] \<and> snd (get_display_date e s None None) = Inr d \<and>
    show_time s \<and> (force \<or> is_display_idle e') \<and>
    snd (get_display_current_time e' (snd (handle_query_time e utt s)) None None) = Inr (Some t) \<and>
    t \<noteq> []"
  let ?s' = "snd (handle_query_time e utt s)"
  from h have rel: "fst (handle_query_time e utt s) = Inr () \<and> \<not> answering_query ?s' \<and>
      displayed_time ?s' = None \<and> show_time ?s' = show_time s \<and> display_tz ?s' = display_tz s"
    by (intro handle_query_time_releases) auto
  then show "fst (handle_query_time e utt s) = Inr ()" and "\<not> answering_query ?s'"
    by simp_all
  from h obtain evs' dt' where
    ld: "get_local_datetime e' ?s' None None = (evs', Inr (Some dt'))" and t: "time_text e' dt' = t"
    using current_time_text_available by blast
  have "update_display e' force ?s' =
     (Inr (),
      ?s'\<lparr>displayed_time := Some (time_text e' dt'),
        gui := (\<lambda>key. None)(''time_string'' \<mapsto> PyStr (time_text e' dt'),
                ''ampm_string'' \<mapsto> PyStr [], ''date_string'' \<mapsto> PyStr (date_text e' dt')),
        calls := calls ?s' @ evs' @ evs' @ evs'
          @ (if platform e' = Some ''mycroft_mark_1'' then display_mark1 e' (time_text e' dt') else [])
          @ [GuiClear] @ evs' @ [GuiShowPage ''time.qml'', RemoveActive]\<rparr>)"
    using rel h t by (intro tick_new_text[OF _ _ _ ld]) auto
  then show "draw_count (calls_since ?s' (snd (update_display e' force ?s'))) = 1"
    using draw_count_quiet[OF local_datetime_quiet[OF ld]] by simp
qed

theorem exclusive_hold_suppresses_ticks_witness:
  "ticks [(sample_env, False), (busy_env, True)] ((init_skill True)\<lparr>answering_query := True\<rparr>)
     = (init_skill True)\<lparr>answering_query := True\<rparr> \<and>
   fst (handle_query_time sample_env ''what time is it'' (init_skill True)) = Inr () \<and>
   \<not> answering_query (snd (handle_query_time sample_env ''what time is it'' (init_skill True))) \<and>
   draw_count (calls_since (snd (handle_query_time sample_env ''what time is it'' (init_skill True)))
     (snd (update_display sample_env False
       (snd (handle_query_time sample_env ''what time is it'' (init_skill True)))))) = 1"
proof -
  let ?s = "init_skill True"
  let ?s' = "snd (handle_query_time sample_env ''what time is it'' ?s)"
  have tz: "display_tz ?s = None" and shw: "show_time ?s"
    by (simp_all add: init_skill_def)
  have spoken: "get_spoken_current_time sample_env ?s (extract_location sample_env ''what time is it'')
      None False = ([], Inr (Some ''12:34''))"
    using sample_local_datetime(1)[OF tz]
    by (simp add: get_spoken_current_time_def bind_traced_def truthy_def sample_env_def)
  have date: "snd (get_display_date sample_env ?s None None) = Inr ''11/3/2026''"
    using tz by (rule sample_reads(2))
  have "display_tz ?s' = None"
    using handle_query_time_releases[OF spoken _ date] tz by simp
  then have text': "snd (get_display_current_time sample_env ?s' None None) = Inr (Some ''12:34'')"
    by (rule sample_reads(1))
  have idle: "is_display_idle sample_env"
    by (simp add: is_display_idle_def sample_env_def)
  have held: "answering_query (?s\<lparr>answering_query := True\<rparr>)"
    by simp
  show ?thesis
    using exclusive_hold_suppresses_ticks[where s = "?s\<lparr>answering_query := True\<rparr>"
        and ts = "[(sample_env, False), (busy_env, True)]"]
      exclusive_hold_suppresses_ticks[where s = ?s and e = sample_env
        and utt = "''what time is it''" and evs = "[]" and spoken = "''12:34''"
        and d = "''11/3/2026''" and force = False and e' = sample_env and t = "''12:34''"]
      spoken date shw idle text' held
    by simp
qed

text \<open>Two ticks in a row that compute the same text, the idle display being wanted.\<close>

lemma two_ticks_same_text:
  assumes "\<not> answering_query s" and "show_time s"
    and "force \<or> is_display_idle e" and "force' \<or> is_display_idle e'"
    and "snd (get_display_current_time e s None None) = Inr (Some t)"
    and "snd (get_display_current_time e' (snd (update_display e force s)) None None) = Inr (Some t)"
  shows "display_calls (calls_since (snd (update_display e force s))
           (ticks [(e, force), (e', force')] s)) = [] \<and>
         draw_count (calls_since s (ticks [(e, force), (e', force')] s))
           = (if displayed_time s \<noteq> Some t \<and> t \<noteq> [] then 1 else 0)"
proof -
  let ?s1 = "snd (update_display e force s)"
  obtain evs1 dt1 where
    ld1: "get_local_datetime e s None None = (evs1, Inr (Some dt1))" and t1: "time_text e dt1 = t"
    using current_time_text_available[OF assms(5)] by blast
  have q1: "draw_count evs1 = 0"
    using draw_count_quiet[OF local_datetime_quiet[OF ld1]] .
  have first: "\<not> answering_query ?s1 \<and> show_time ?s1 \<and> displayed_time ?s1 = Some t \<and>
      (\<exists>X. calls ?s1 = calls s @ X \<and>
            draw_count X = (if displayed_time s \<noteq> Some t \<and> t \<noteq> [] then 1 else 0))"
  proof (cases "displayed_time s = Some t")
    case True
    then have "displayed_time s = Some (time_text e dt1)" using t1 by simp
    from tick_same_text[OF assms(1,2,3) ld1 this] True assms(1,2) q1 show ?thesis
      by (simp add: refreshed_def)
  next
    case False
    then have new: "displayed_time s \<noteq> Some (time_text e dt1)" using t1 by simp
    show ?thesis
    proof (cases "t = []")
      case True
      then have "time_text e dt1 = []" using t1 by simp
      from tick_empty_text[OF assms(1,2,3) ld1 new this] True assms(1,2) q1 show ?thesis
        by (simp add: refreshed_def)
    next
      case nonempty: False
      then have "time_text e dt1 \<noteq> []" using t1 by simp
      from tick_new_text[OF assms(1,2,3) ld1 new this] False nonempty assms(1,2) q1 t1
      show ?thesis by simp
    qed
  qed
  then obtain X where X: "calls ?s1 = calls s @ X"
    "draw_count X = (if displayed_time s \<noteq> Some t \<and> t \<noteq> [] then 1 else 0)"
    by blast
  obtain evs2 dt2 where
    ld2: "get_local_datetime e' ?s1 None None = (evs2, Inr (Some dt2))" and t2: "time_text e' dt2 = t"
    using current_time_text_available[OF assms(6)] by blast
  have q2: "display_calls evs2 = []"
    using local_datetime_quiet[OF ld2] .
  have "displayed_time ?s1 = Some (time_text e' dt2)"
    using first t2 by simp
  with first assms(4) ld2
  have second: "update_display e' force' ?s1 =
      (Inr (), (refreshed e' ?s1 evs2 dt2)\<lparr>calls := calls ?s1 @ evs2 @ evs2 @ evs2\<rparr>)"
    by (intro tick_same_text) auto
  then have c2: "calls (ticks [(e, force), (e', force')] s) = calls ?s1 @ evs2 @ evs2 @ evs2"
    by simp
  then have c02: "calls (ticks [(e, force), (e', force')] s) = calls s @ (X @ evs2 @ evs2 @ evs2)"
    using X(1) by simp
  show ?thesis
    unfolding calls_since_append[OF c2] calls_since_append[OF c02]
    using q2 draw_count_quiet[OF q2] X(2) by simp
qed

text \<open>
  C8, as amended. Of two ticks in a row that compute the same idle text, with the idle
  display wanted and the display free (or the tick forced), the second makes no call that
  draws or erases; the two together draw once when the text is not empty and is not the
  text already shown before the first, and not at all otherwise.
\<close>

theorem repeated_text_drawn_at_most_once:
  assumes "\<not> answering_query s" and "show_time s"
    and "force \<or> is_display_idle e" and "force' \<or> is_display_idle e'"
    and "snd (get_display_current_time e s None None) = Inr (Some t)"
    and "snd (get_display_current_time e' (snd (update_display e force s)) None None) = Inr (Some t)"
  shows "display_calls (calls_since (snd (update_display e force s))
           (ticks [(e, force), (e', force')] s)) = [] \<and>
         draw_count (calls_since s (ticks [(e, force), (e', force')] s))
           = (if displayed_time s \<noteq> Some t \<and> t \<noteq> [] then 1 else 0)"
  using assms by (rule two_ticks_same_text)

lemma init_skill_fields:
  "\<not> answering_query (init_skill b)" "show_time (init_skill b) = b"
  "display_tz (init_skill b) = None" "displayed_time (init_skill b) = None"
  "calls (init_skill b) = []"
  by (simp_all add: init_skill_def)

lemma sample_idle: "is_display_idle sample_env" "\<not> is_display_idle busy_env"
  by (simp_all add: is_display_idle_def sample_env_def busy_env_def)

lemma shown_skill_fields:
  "\<not> answering_query shown_skill" "show_time shown_skill" "display_tz shown_skill = None"
  "displayed_time shown_skill = Some ''12:34''"
proof -
  have "update_display sample_env False (init_skill True) =
     (Inr (),
      (init_skill True)\<lparr>displayed_time := Some (time_text sample_env (0, TZ ''Australia/Sydney'')),
        gui := (\<lambda>key. None)(''time_string'' \<mapsto> PyStr (time_text sample_env (0, TZ ''Australia/Sydney'')),
                ''ampm_string'' \<mapsto> PyStr [],
                ''date_string'' \<mapsto> PyStr (date_text sample_env (0, TZ ''Australia/Sydney''))),
        calls := calls (init_skill True) @ [] @ [] @ []
          @ (if platform sample_env = Some ''mycroft_mark_1''
             then display_mark1 sample_env (time_text sample_env (0, TZ ''Australia/Sydney'')) else [])
          @ [GuiClear] @ [] @ [GuiShowPage ''time.qml'', RemoveActive]\<rparr>)"
    using sample_local_datetime(1)[OF init_skill_fields(3), of True]
    by (intro tick_new_text) (simp_all add: init_skill_fields sample_idle sample_texts)
  then show "\<not> answering_query shown_skill" "show_time shown_skill" "display_tz shown_skill = None"
    "displayed_time shown_skill = Some ''12:34''"
    by (simp_all add: shown_skill_def init_skill_fields sample_texts)
qed

theorem repeated_text_drawn_at_most_once_witness:
  "draw_count (calls_since (init_skill True)
     (ticks [(sample_env, False), (sample_env, False)] (init_skill True))) = 1 \<and>
   display_calls (calls_since (snd (update_display sample_env False (init_skill True)))
     (ticks [(sample_env, False), (sample_env, False)] (init_skill True))) = []"
proof -
  have "display_tz (snd (update_display sample_env False (init_skill True))) = None"
    using shown_skill_fields(3) by (simp add: shown_skill_def)
  then have "snd (get_display_current_time sample_env
      (snd (update_display sample_env False (init_skill True))) None None) = Inr (Some ''12:34'')"
    by (rule sample_reads(1))
  from repeated_text_drawn_at_most_once[where force = False and force' = False,
      OF init_skill_fields(1) _ _ _ sample_reads(1)[OF init_skill_fields(3)] this]
  show ?thesis
    by (simp add: init_skill_fields sample_idle)
qed

text \<open>
  C8 as stated fails: after a tick that drew \<open>12:34\<close>, the next two ticks compute that same
  text, with the idle display wanted and the display free, and neither draws.
\<close>

theorem repeated_text_counterexample:
  "show_time shown_skill \<and> \<not> answering_query shown_skill \<and> is_display_idle sample_env \<and>
   snd (get_display_current_time sample_env shown_skill None None) = Inr (Some ''12:34'') \<and>
   snd (get_display_current_time sample_env (snd (update_display sample_env False shown_skill))
     None None) = Inr (Some ''12:34'') \<and>
   draw_count (calls_since shown_skill
     (ticks [(sample_env, False), (sample_env, False)] shown_skill)) = 0"
proof -
  have r1: "snd (get_display_current_time sample_env shown_skill None None) = Inr (Some ''12:34'')"
    using shown_skill_fields(3) by (rule sample_reads(1))
  obtain evs dt where
    ld: "get_local_datetime sample_env shown_skill None None = (evs, Inr (Some dt))"
    using current_time_text_available[OF r1] by blast
  have "displayed_time shown_skill = Some (time_text sample_env dt)"
    using shown_skill_fields(4) by (simp add: sample_texts)
  from tick_same_text[where force = False, OF shown_skill_fields(1,2) _ ld this]
  have "display_tz (snd (update_display sample_env False shown_skill)) = None"
    using shown_skill_fields(3) by (simp add: sample_idle refreshed_def)
  then have r2: "snd (get_display_current_time sample_env
      (snd (update_display sample_env False shown_skill)) None None) = Inr (Some ''12:34'')"
    by (rule sample_reads(1))
  from two_ticks_same_text[where force = False and force' = False,
      OF shown_skill_fields(1,2) _ _ r1 r2]
  have "draw_count (calls_since shown_skill
      (ticks [(sample_env, False), (sample_env, False)] shown_skill)) = 0"
    using shown_skill_fields(4) by (simp add: sample_idle)
  with r1 r2 shown_skill_fields sample_idle show ?thesis by simp
qed

text \<open>
  C9, as amended. A tick that is not held off by a query and not forced, with the idle
  display wanted, whose date string is at hand (so that it gets as far as asking the
  display manager), and that finds another owner of the display, completes, makes no call
  that draws or erases, and leaves \<^verbatim>\<open>displayed_time\<close> at \<open>None\<close>.
\<close>

theorem foreign_owner_defers_tick:
  assumes "\<not> answering_query s" and "show_time s" and "get_active e \<noteq> []"
    and "snd (get_display_date e s None None) = Inr d"
  shows "fst (update_display e False s) = Inr () \<and>
         displayed_time (snd (update_display e False s)) = None \<and>
         display_calls (calls_since s (snd (update_display e False s))) = []"
proof -
  obtain evs dt where ld: "get_local_datetime e s None None = (evs, Inr (Some dt))"
    using display_date_text_available[OF assms(4)] by blast
  have busy: "\<not> is_display_idle e"
    using assms(3) by (simp add: is_display_idle_def)
  have "update_display e False s = (Inr (), (refreshed e s evs dt)\<lparr>displayed_time := None\<rparr>)"
    using assms(1,2) _ busy ld by (rule tick_yield) simp
  moreover have "calls ((refreshed e s evs dt)\<lparr>displayed_time := None\<rparr>) = calls s @ (evs @ evs)"
    by (simp add: refreshed_def)
  ultimately show ?thesis
    using local_datetime_quiet[OF ld] by (simp add: calls_since_append)
qed

theorem foreign_owner_defers_tick_witness:
  "get_active busy_env = ''AlarmSkill'' \<and>
   fst (update_display busy_env False stale_skill) = Inr () \<and>
   displayed_time (snd (update_display busy_env False stale_skill)) = None \<and>
   display_calls (calls_since stale_skill (snd (update_display busy_env False stale_skill))) = []"
proof -
  have owner: "get_active busy_env = ''AlarmSkill''"
    by (simp add: busy_env_def)
  have date: "snd (get_display_date busy_env stale_skill None None) = Inr ''11/3/2026''"
    by (rule sample_reads(4)) (simp add: stale_skill_def init_skill_fields)
  from foreign_owner_defers_tick[of stale_skill busy_env "''11/3/2026''"] owner date
  show ?thesis by (simp add: stale_skill_def init_skill_fields)
qed

text \<open>The configured timezone of \<open>lost_env\<close> resolves to nothing, and the user is told so.\<close>

lemma lost_timezone: "get_timezone lost_env ''Nowhere'' = ([], Inr None)"
  by (simp add: lost_env_def busy_env_def sample_env_def get_timezone_def astral_timezone_def
      lower_def lower_char_def is_upper_def zone_score_def replace_underscore_def
      sample_fuzzy_match_def)

lemma lost_local_datetime:
  "display_tz s = None \<Longrightarrow>
   get_local_datetime lost_env s None None
     = ([SpeakDialog ''time.tz.not.found'' ''location'' None], Inr None)"
  using lost_timezone
  by (simp add: get_local_datetime_def bind_traced_def lost_env_def busy_env_def sample_env_def)

lemma lost_tick:
  assumes "\<not> answering_query s" and "display_tz s = None"
  shows "update_display lost_env force s =
     (Inl AttributeError,
      s\<lparr>gui := (gui s)(''time_string'' \<mapsto> PyNone),
        calls := calls s @ [SpeakDialog ''time.tz.not.found'' ''location'' None,
                           SpeakDialog ''time.tz.not.found'' ''location'' None]\<rparr>)"
  using tick_without_datetime[OF assms(1) lost_local_datetime[OF assms(2)], of force] by simp

text \<open>
  C9 as stated fails in two ways. While a query is being answered the tick returns at
  once, and the text on record stays. And when no timezone resolves the tick stops in
  \<^verbatim>\<open>get_display_date\<close> before it asks who owns the display, and the text on record stays.
  In both the idle display is wanted, the tick is not forced and the display has another
  owner.
\<close>

theorem foreign_owner_tick_counterexample:
  "show_time stale_skill \<and> get_active busy_env = ''AlarmSkill'' \<and>
   get_active lost_env = ''AlarmSkill'' \<and>
   displayed_time (snd (update_display busy_env False (stale_skill\<lparr>answering_query := True\<rparr>)))
     = Some ''12:33'' \<and>
   fst (update_display lost_env False stale_skill) = Inl AttributeError \<and>
   displayed_time (snd (update_display lost_env False stale_skill)) = Some ''12:33''"
proof -
  have "\<not> answering_query stale_skill" and "display_tz stale_skill = None"
    by (simp_all add: stale_skill_def init_skill_def)
  from lost_tick[OF this, of False]
  have "fst (update_display lost_env False stale_skill) = Inl AttributeError"
    and "displayed_time (snd (update_display lost_env False stale_skill)) = Some ''12:33''"
    by (simp_all add: stale_skill_def init_skill_def)
  moreover have "displayed_time
      (snd (update_display busy_env False (stale_skill\<lparr>answering_query := True\<rparr>))) = Some ''12:33''"
    by (simp add: tick_held stale_skill_def init_skill_def)
  moreover have "show_time stale_skill" "get_active busy_env = ''AlarmSkill''"
    "get_active lost_env = ''AlarmSkill''"
    by (simp_all add: stale_skill_def init_skill_def busy_env_def lost_env_def)
  ultimately show ?thesis by simp
qed

text \<open>
  A tick that is not held off and whose time and date strings are at hand completes and
  leaves them, with an empty am/pm string, in the gui values, whatever the setting of the
  idle display, the owner of the display and the \<open>force\<close> argument are. A tick that is
  held off leaves the skill, and with it the gui values, as they were.
\<close>

lemma gui_refreshed_unless_held:
  "(\<not> answering_query s \<and>
    snd (get_display_current_time e s None None) = Inr (Some t) \<and>
    snd (get_display_date e s None None) = Inr d \<longrightarrow>
      fst (update_display e force s) = Inr () \<and>
      gui (snd (update_display e force s)) ''time_string'' = Some (PyStr t) \<and>
      gui (snd (update_display e force s)) ''date_string'' = Some (PyStr d) \<and>
      gui (snd (update_display e force s)) ''ampm_string'' = Some (PyStr [])) \<and>
   (answering_query s \<longrightarrow> update_display e force s = (Inr (), s))"
proof (intro conjI impI)
  assume "answering_query s"
  then show "update_display e force s = (Inr (), s)" by (rule tick_held)
next
  assume h: "\<not> answering_query s \<and>
    snd (get_display_current_time e s None None) = Inr (Some t) \<and>
    snd (get_display_date e s None None) = Inr d"
  then obtain evs dt where ld: "get_local_datetime e s None None = (evs, Inr (Some dt))"
    and t: "time_text e dt = t"
    using current_time_text_available by blast
  have d: "date_text e dt = d"
    using h display_date_available[OF ld] by simp
  have free: "\<not> answering_query s" using h by simp
  have "fst (update_display e force s) = Inr () \<and>
      gui (snd (update_display e force s)) ''time_string'' = Some (PyStr t) \<and>
      gui (snd (update_display e force s)) ''date_string'' = Some (PyStr d) \<and>
      gui (snd (update_display e force s)) ''ampm_string'' = Some (PyStr [])"
  proof (cases "show_time s")
    case False
    from tick_disabled[OF free False ld, of force] t d show ?thesis
      by (simp add: refreshed_def)
  next
    case True
    show ?thesis
    proof (cases "force \<or> is_display_idle e")
      case False
      then have "\<not> force" "\<not> is_display_idle e" by simp_all
      from tick_yield[OF free True this ld] t d show ?thesis
        by (simp add: refreshed_def)
    next
      case go: True
      show ?thesis
      proof (cases "displayed_time s = Some (time_text e dt)")
        case True
        from tick_same_text[OF free \<open>show_time s\<close> go ld True] t d show ?thesis
          by (simp add: refreshed_def)
      next
        case False
        show ?thesis
        proof (cases "time_text e dt = []")
          case True
          from tick_empty_text[OF free \<open>show_time s\<close> go ld False True] t d show ?thesis
            by (simp add: refreshed_def)
        next
          case nonempty: False
          from tick_new_text[OF free \<open>show_time s\<close> go ld False nonempty] t d show ?thesis
            by simp
        qed
      qed
    qed
  qed
  then show "fst (update_display e force s) = Inr ()"
    and "gui (snd (update_display e force s)) ''time_string'' = Some (PyStr t)"
    and "gui (snd (update_display e force s)) ''date_string'' = Some (PyStr d)"
    and "gui (snd (update_display e force s)) ''ampm_string'' = Some (PyStr [])"
    by simp_all
qed

text \<open>
  C10 at a tick that is not held off and finds no timezone: \<open>None\<close> is written as the time
  string, \<^verbatim>\<open>get_display_date\<close> raises on the datetime that is not there, and neither the
  date string nor the am/pm string is written. \<^verbatim>\<open>get_display_current_time\<close> checks for
  the missing datetime; \<^verbatim>\<open>get_display_date\<close> does not.
\<close>

theorem tick_without_timezone_writes_no_date:
  "\<not> answering_query (init_skill True) \<and>
   get_timezone lost_env (location_timezone lost_env) = ([], Inr None) \<and>
   fst (update_display lost_env False (init_skill True)) = Inl AttributeError \<and>
   gui (snd (update_display lost_env False (init_skill True))) ''time_string'' = Some PyNone \<and>
   gui (snd (update_display lost_env False (init_skill True))) ''date_string'' = None \<and>
   gui (snd (update_display lost_env False (init_skill True))) ''ampm_string'' = None"
proof -
  have loc: "location_timezone lost_env = ''Nowhere''"
    by (simp add: lost_env_def)
  from lost_tick[where s = "init_skill True" and force = False, OF init_skill_fields(1,3)]
    lost_timezone loc
  show ?thesis
    by (simp add: init_skill_def)
qed

end
